theory Spec2Isabelle
  imports Main
begin

section \<open>Python values used by crm/schema.py\<close>

text \<open>
  A Python \<open>str\<close> is modelled as an Isabelle \<open>string\<close>; its characters are the code
  points below 256, among which the decimal digits (what \<open>\d\<close> matches) are exactly
  \<open>0\<close> to \<open>9\<close>. An optional argument (\<open>phone=None\<close>) is an \<open>option\<close>.
\<close>

text \<open>An exception raised by the data store: \<open>except ObjectDoesNotExist\<close> catches the
  first constructor only, \<open>except Exception\<close> catches both. The string is \<open>str(e)\<close>.\<close>

datatype exn = ObjectDoesNotExist string | Error string

fun str_exn :: "exn \<Rightarrow> string" where
  "str_exn (ObjectDoesNotExist m) = m"
| "str_exn (Error m) = m"

text \<open>\<open>str(n)\<close> of a non-negative integer, as the f-strings format \<open>idx+1\<close>.\<close>

definition digit_char :: "nat \<Rightarrow> char" where
  "digit_char d = ''0123456789'' ! d"

fun str_nat :: "nat \<Rightarrow> string" where
  "str_nat n = (if n < 10 then [digit_char n] else str_nat (n div 10) @ [digit_char (n mod 10)])"

declare str_nat.simps [simp del]

text \<open>Truthiness of an optional string, as in \<open>if phone:\<close>: \<open>None\<close> and \<open>""\<close> are false.\<close>

fun truthy :: "string option \<Rightarrow> bool" where
  "truthy None = False"
| "truthy (Some s) = (s \<noteq> [])"

section \<open>The phone pattern\<close>

text \<open>
  The fragment of Python's \<open>re\<close> syntax that the pattern
  \<^verbatim>\<open>^(\+\d{10,15}|\d{3}-\d{3}-\d{4})$\<close> is written in. \<open>Bol\<close> is \<open>^\<close>, \<open>Eol\<close> is \<open>$\<close>,
  \<open>Digit\<close> is \<open>\d\<close>, \<open>Lit c\<close> is a literal (or escaped) character, \<open>Seq\<close> is
  juxtaposition and \<open>Alt\<close> is \<open>|\<close>. The bounded repetition \<open>r{m,n}\<close> is \<open>Rep m n r\<close>,
  built from \<open>m\<close> mandatory copies followed by \<open>n - m\<close> optional ones, the longer
  alternative first (the repetition is greedy).
\<close>

datatype rx = Eps | Lit char | Digit | Bol | Eol | Seq rx rx | Alt rx rx

primrec rx_times :: "nat \<Rightarrow> rx \<Rightarrow> rx" where
  "rx_times 0 r = Eps"
| "rx_times (Suc n) r = Seq r (rx_times n r)"

primrec rx_upto :: "nat \<Rightarrow> rx \<Rightarrow> rx" where
  "rx_upto 0 r = Eps"
| "rx_upto (Suc n) r = Alt (Seq r (rx_upto n r)) Eps"

definition Rep :: "nat \<Rightarrow> nat \<Rightarrow> rx \<Rightarrow> rx" where
  "Rep m n r = Seq (rx_times m r) (rx_upto (n - m) r)"

definition is_digit :: "char \<Rightarrow> bool" where
  "is_digit c = (c \<in> set ''0123456789'')"

definition newline :: char where
  "newline = CHR 0x0A"

text \<open>
  A backtracking matcher. A position is the number of characters consumed so far together
  with the rest of the subject; \<open>rx_ends r p\<close> lists, in the order the engine tries them,
  the positions at which a match of \<open>r\<close> started at \<open>p\<close> can end. Without the
  \<open>MULTILINE\<close> flag \<open>^\<close> matches at the start of the subject only, and \<open>$\<close> matches at
  the end of the subject and also just before a newline that is the last character.
\<close>

fun rx_ends :: "rx \<Rightarrow> nat \<times> string \<Rightarrow> (nat \<times> string) list" where
  "rx_ends Eps p = [p]"
| "rx_ends (Lit c) (i, s) = (case s of [] \<Rightarrow> [] | x # t \<Rightarrow> if x = c then [(Suc i, t)] else [])"
| "rx_ends Digit (i, s) = (case s of [] \<Rightarrow> [] | x # t \<Rightarrow> if is_digit x then [(Suc i, t)] else [])"
| "rx_ends Bol (i, s) = (if i = 0 then [(i, s)] else [])"
| "rx_ends Eol (i, s) = (if s = [] \<or> s = [newline] then [(i, s)] else [])"
| "rx_ends (Seq a b) p = concat (map (rx_ends b) (rx_ends a p))"
| "rx_ends (Alt a b) p = rx_ends a p @ rx_ends b p"

text \<open>\<open>pattern.match(s)\<close> is truthy when some match starts at position 0.\<close>

definition re_match :: "rx \<Rightarrow> string \<Rightarrow> bool" where
  "re_match r s = (rx_ends r (0, s) \<noteq> [])"

text \<open>\<^verbatim>\<open>re.compile(r"^(\+\d{10,15}|\d{3}-\d{3}-\d{4})$")\<close>, the same in both mutations.\<close>

definition phone_regex :: rx where
  "phone_regex =
     Seq Bol
       (Seq (Alt (Seq (Lit (CHR ''+'')) (Rep 10 15 Digit))
                 (Seq (Rep 3 3 Digit)
                   (Seq (Lit (CHR ''-''))
                     (Seq (Rep 3 3 Digit)
                       (Seq (Lit (CHR ''-'')) (Rep 4 4 Digit))))))
            Eol)"

text \<open>The phone check of both mutations: \<open>if phone: if not phone_regex.match(phone): reject\<close>.\<close>

definition phone_rejected :: "string option \<Rightarrow> bool" where
  "phone_rejected phone =
     (case phone of None \<Rightarrow> False
      | Some s \<Rightarrow> truthy phone \<and> \<not> re_match phone_regex s)"

section \<open>The entities and the data store\<close>

text \<open>
  The model instances that \<open>schema.py\<close> builds: \<open>Customer(name=, email=, phone=)\<close>,
  \<open>Product(name=, price=, stock=)\<close> and
  \<open>Order(customer=, order_date=, total_amount=)\<close>. The primary key is \<open>None\<close> until
  \<open>save()\<close> has assigned one. The module \<open>crm/models.py\<close> that declares the field
  types is not part of the sources, so the type of a price is left open (\<open>'p\<close>): the
  mutations only compare it with zero and add it up.
\<close>

text \<open>A \<open>datetime\<close> is modelled by its timestamp; the mutations only pass it on.\<close>

type_synonym datetime = int

record Customer =
  Customer_id :: "nat option"
  Customer_name :: string
  Customer_email :: string
  Customer_phone :: "string option"

record 'p Product =
  Product_id :: "nat option"
  Product_name :: string
  Product_price :: 'p
  Product_stock :: int

record 'p Order =
  Order_id :: "nat option"
  Order_customer :: Customer
  Order_order_date :: datetime
  Order_total_amount :: 'p

text \<open>
  The calls that the mutations make into the data store (Django's ORM), as functions of
  the store's state \<open>'st\<close>. A query returns its answer or the exception it raised; a
  write returns the state it left behind together with the key it assigned or the
  exception it raised. A graphene \<open>ID\<close> argument is a string.
  \<^item> \<open>customer_email_exists\<close>: \<open>Customer.objects.filter(email=email).exists()\<close>
  \<^item> \<open>customer_get\<close>, \<open>product_get\<close>: \<open>objects.get(pk=...)\<close>
  \<^item> \<open>customer_save\<close>, \<open>product_save\<close>, \<open>order_save\<close>: \<open>instance.save()\<close>
  \<^item> \<open>order_products_set\<close>: \<open>order.products.set(products)\<close>
  \<^item> \<open>atomic_enter\<close>, \<open>atomic_exit\<close>: entering the block of
    \<open>with transaction.atomic()\<close> and leaving it without an exception
\<close>

record ('st, 'p) gateway =
  customer_email_exists :: "'st \<Rightarrow> string \<Rightarrow> exn + bool"
  customer_get :: "'st \<Rightarrow> string \<Rightarrow> exn + Customer"
  customer_save :: "'st \<Rightarrow> Customer \<Rightarrow> 'st \<times> (exn + nat)"
  product_get :: "'st \<Rightarrow> string \<Rightarrow> exn + 'p Product"
  product_save :: "'st \<Rightarrow> 'p Product \<Rightarrow> 'st \<times> (exn + nat)"
  order_save :: "'st \<Rightarrow> 'p Order \<Rightarrow> 'st \<times> (exn + nat)"
  order_products_set :: "'st \<Rightarrow> 'p Order \<Rightarrow> 'p Product list \<Rightarrow> 'st \<times> (exn + unit)"
  atomic_enter :: "'st \<Rightarrow> 'st \<times> (exn + unit)"
  atomic_exit :: "'st \<Rightarrow> 'st \<times> (exn + unit)"

section \<open>The mutations\<close>

text \<open>
  The result objects of the four mutations. A field that the constructor call leaves out
  is \<open>None\<close>. Every \<open>mutate\<close> below returns the store's state after the call together
  with \<open>Inl e\<close> when the exception \<open>e\<close> leaves \<open>mutate\<close>, or \<open>Inr r\<close> when it returns
  the result object \<open>r\<close>.
\<close>

record CreateCustomer =
  cc_customer :: "Customer option"
  cc_success :: bool
  cc_message :: string

record BulkCreateCustomers =
  bc_created_customers :: "Customer list"
  bc_errors :: "string list"

record 'p CreateProduct =
  cp_product :: "'p Product option"
  cp_success :: bool
  cp_message :: string

record 'p CreateOrder =
  co_order :: "'p Order option"
  co_success :: bool
  co_message :: string

record CustomerInput =
  input_name :: string
  input_email :: string
  input_phone :: "string option"

subsection \<open>CreateCustomer.mutate\<close>

definition CreateCustomer_mutate ::
  "('st, 'p) gateway \<Rightarrow> 'st \<Rightarrow> string \<Rightarrow> string \<Rightarrow> string option \<Rightarrow> 'st \<times> (exn + CreateCustomer)"
where
  "CreateCustomer_mutate gw st name email phone =
     (case customer_email_exists gw st email of
        Inl e \<Rightarrow> (st, Inl e)
      | Inr True \<Rightarrow>
          (st, Inr \<lparr>cc_customer = None, cc_success = False,
                    cc_message = ''Email already exists.''\<rparr>)
      | Inr False \<Rightarrow>
          if phone_rejected phone
          then (st, Inr \<lparr>cc_customer = None, cc_success = False,
                         cc_message = ''Invalid phone format.''\<rparr>)
          else
            (let customer = \<lparr>Customer_id = None, Customer_name = name,
                              Customer_email = email, Customer_phone = phone\<rparr>
             in (case customer_save gw st customer of
                   (st', Inl e) \<Rightarrow> (st', Inl e)
                 | (st', Inr pk) \<Rightarrow>
                     (st', Inr \<lparr>cc_customer = Some (customer\<lparr>Customer_id := Some pk\<rparr>),
                                cc_success = True,
                                cc_message = ''Customer created successfully.''\<rparr>))))"

subsection \<open>BulkCreateCustomers.mutate\<close>

text \<open>The prefix \<open>f"Row {idx+1}: "\<close> shared by the three error messages.\<close>

definition row_prefix :: "nat \<Rightarrow> string" where
  "row_prefix idx = ''Row '' @ str_nat (idx + 1) @ '': ''"

text \<open>
  One iteration of the \<open>for\<close> loop: the \<open>try\<close> block with its \<open>except Exception\<close>
  handler, acting on the store and on the two lists \<open>created\<close> and \<open>errors\<close>.
\<close>

definition bulk_row ::
  "('st, 'p) gateway \<Rightarrow> nat \<Rightarrow> CustomerInput \<Rightarrow> 'st \<times> Customer list \<times> string list
     \<Rightarrow> 'st \<times> Customer list \<times> string list"
where
  "bulk_row gw idx data acc =
     (case acc of (st, created, errors) \<Rightarrow>
        (case customer_email_exists gw st (input_email data) of
           Inl e \<Rightarrow> (st, created, errors @ [row_prefix idx @ str_exn e])
         | Inr True \<Rightarrow>
             (st, created,
              errors @ [row_prefix idx @ ''Email '' @ [CHR 0x27] @ input_email data
                          @ [CHR 0x27] @ '' already exists.''])
         | Inr False \<Rightarrow>
             if phone_rejected (input_phone data)
             then (st, created, errors @ [row_prefix idx @ ''Invalid phone format.''])
             else
               (let customer = \<lparr>Customer_id = None, Customer_name = input_name data,
                                 Customer_email = input_email data,
                                 Customer_phone = input_phone data\<rparr>
                in (case customer_save gw st customer of
                      (st', Inl e) \<Rightarrow> (st', created, errors @ [row_prefix idx @ str_exn e])
                    | (st', Inr pk) \<Rightarrow>
                        (st', created @ [customer\<lparr>Customer_id := Some pk\<rparr>], errors)))))"

text \<open>\<open>for idx, data in enumerate(customers)\<close>, from the index \<open>idx\<close> on.\<close>

fun bulk_loop ::
  "('st, 'p) gateway \<Rightarrow> nat \<Rightarrow> CustomerInput list \<Rightarrow> 'st \<times> Customer list \<times> string list
     \<Rightarrow> 'st \<times> Customer list \<times> string list"
where
  "bulk_loop gw idx [] acc = acc"
| "bulk_loop gw idx (data # rest) acc = bulk_loop gw (Suc idx) rest (bulk_row gw idx data acc)"

definition BulkCreateCustomers_mutate ::
  "('st, 'p) gateway \<Rightarrow> 'st \<Rightarrow> CustomerInput list \<Rightarrow> 'st \<times> (exn + BulkCreateCustomers)"
where
  "BulkCreateCustomers_mutate gw st customers =
     (case atomic_enter gw st of
        (st0, Inl e) \<Rightarrow> (st0, Inl e)
      | (st0, Inr _) \<Rightarrow>
          (case bulk_loop gw 0 customers (st0, [], []) of
             (st1, created, errors) \<Rightarrow>
               (case atomic_exit gw st1 of
                  (st2, Inl e) \<Rightarrow> (st2, Inl e)
                | (st2, Inr _) \<Rightarrow>
                    (st2, Inr \<lparr>bc_created_customers = created, bc_errors = errors\<rparr>))))"

subsection \<open>CreateProduct.mutate\<close>

text \<open>
  \<open>stock\<close> is declared \<open>graphene.Int(default_value=0)\<close>, not required: a call that
  leaves it out passes the default, \<open>Some 0\<close>, and a call that passes an explicit null
  passes \<open>None\<close>. For \<open>None\<close> the comparison \<open>stock < 0\<close> raises \<open>TypeError\<close>, which
  nothing catches.
\<close>

definition stock_type_error :: exn where
  "stock_type_error =
     Error ([CHR 0x27] @ ''<'' @ [CHR 0x27] @ '' not supported between instances of ''
            @ [CHR 0x27] @ ''NoneType'' @ [CHR 0x27] @ '' and '' @ [CHR 0x27] @ ''int''
            @ [CHR 0x27])"

definition CreateProduct_mutate ::
  "('st, 'p::{zero,ord}) gateway \<Rightarrow> 'st \<Rightarrow> string \<Rightarrow> 'p \<Rightarrow> int option
     \<Rightarrow> 'st \<times> (exn + 'p CreateProduct)"
where
  "CreateProduct_mutate gw st name price stock =
     (if price \<le> 0
      then (st, Inr \<lparr>cp_product = None, cp_success = False,
                     cp_message = ''Price must be positive.''\<rparr>)
      else
        (case stock of
           None \<Rightarrow> (st, Inl stock_type_error)
         | Some n \<Rightarrow>
             if n < 0
             then (st, Inr \<lparr>cp_product = None, cp_success = False,
                            cp_message = ''Stock cannot be negative.''\<rparr>)
             else
               (let product = \<lparr>Product_id = None, Product_name = name,
                                Product_price = price, Product_stock = n\<rparr>
                in (case product_save gw st product of
                      (st', Inl e) \<Rightarrow> (st', Inl e)
                    | (st', Inr pk) \<Rightarrow>
                        (st', Inr \<lparr>cp_product = Some (product\<lparr>Product_id := Some pk\<rparr>),
                                   cp_success = True,
                                   cp_message = ''Product created successfully.''\<rparr>)))))"

subsection \<open>CreateOrder.mutate\<close>

text \<open>
  The three ways the loop over \<open>product_ids\<close> ends: it runs to completion with the
  lists \<open>products\<close> and the sum \<open>total_amount\<close>; it returns the failure result for the
  id \<open>pid\<close> from inside the handler of \<open>ObjectDoesNotExist\<close>; or another exception
  leaves it.
\<close>

datatype 'p loop_exit = Completed "'p Product list" 'p | Invalid_product string | Raised exn

fun products_loop ::
  "('st, 'p::{zero,plus}) gateway \<Rightarrow> 'st \<Rightarrow> string list \<Rightarrow> 'p Product list \<Rightarrow> 'p
     \<Rightarrow> 'p loop_exit"
where
  "products_loop gw st [] products total_amount = Completed products total_amount"
| "products_loop gw st (pid # rest) products total_amount =
     (case product_get gw st pid of
        Inr product \<Rightarrow>
          products_loop gw st rest (products @ [product]) (total_amount + Product_price product)
      | Inl (ObjectDoesNotExist m) \<Rightarrow> Invalid_product pid
      | Inl (Error m) \<Rightarrow> Raised (Error m))"

text \<open>\<open>now\<close> is the value of \<open>datetime.now()\<close> at the call.\<close>

definition CreateOrder_mutate ::
  "('st, 'p::{zero,plus}) gateway \<Rightarrow> datetime \<Rightarrow> 'st \<Rightarrow> string \<Rightarrow> string list
     \<Rightarrow> datetime option \<Rightarrow> 'st \<times> (exn + 'p CreateOrder)"
where
  "CreateOrder_mutate gw now st customer_id product_ids order_date =
     (case customer_get gw st customer_id of
        Inl (ObjectDoesNotExist m) \<Rightarrow>
          (st, Inr \<lparr>co_order = None, co_success = False,
                    co_message = ''Invalid customer ID.''\<rparr>)
      | Inl (Error m) \<Rightarrow> (st, Inl (Error m))
      | Inr customer \<Rightarrow>
          if product_ids = []
          then (st, Inr \<lparr>co_order = None, co_success = False,
                         co_message = ''At least one product must be selected.''\<rparr>)
          else
            (case products_loop gw st product_ids [] 0 of
               Invalid_product pid \<Rightarrow>
                 (st, Inr \<lparr>co_order = None, co_success = False,
                           co_message = ''Invalid product ID: '' @ pid\<rparr>)
             | Raised e \<Rightarrow> (st, Inl e)
             | Completed products total_amount \<Rightarrow>
                 (let order = \<lparr>Order_id = None, Order_customer = customer,
                                 Order_order_date =
                                   (case order_date of None \<Rightarrow> now | Some d \<Rightarrow> d),
                                 Order_total_amount = total_amount\<rparr>
                  in (case order_save gw st order of
                        (st1, Inl e) \<Rightarrow> (st1, Inl e)
                      | (st1, Inr pk) \<Rightarrow>
                          (case order_products_set gw st1 (order\<lparr>Order_id := Some pk\<rparr>) products of
                             (st2, Inl e) \<Rightarrow> (st2, Inl e)
                           | (st2, Inr _) \<Rightarrow>
                               (st2, Inr \<lparr>co_order = Some (order\<lparr>Order_id := Some pk\<rparr>),
                                          co_success = True,
                                          co_message = ''Order created successfully.''\<rparr>))))))"

section \<open>An in-memory data store\<close>

text \<open>
  Modelled from the spec: the data store behind the entity gateway (\<open>crm/models.py\<close> and
  the database are not part of the sources). It holds the customers, the products and
  the orders, each order with its product relation, in the order they were saved.
\<close>

record 'p store =
  customer_table :: "Customer list"
  product_table :: "'p Product list"
  order_table :: "('p Order \<times> 'p Product list) list"

text \<open>Modelled from the spec: the existence check by field, on the customers' emails.\<close>

definition mem_customer_email_exists :: "'p store \<Rightarrow> string \<Rightarrow> exn + bool" where
  "mem_customer_email_exists st email = Inr (email \<in> set (map Customer_email (customer_table st)))"

text \<open>
  Modelled from the spec: how get-by-id reads the id it is given. The spec only says that
  a miss raises the not-found signal; the rest is Django's: the key of a model is an
  integer field, so the string of a graphene \<open>ID\<close> is converted with \<open>int()\<close>, and a
  string that \<open>int()\<close> refuses raises \<open>ValueError\<close>, which is not the not-found signal.
  \<open>py_int\<close> is \<open>int(s)\<close> on a string: surrounding whitespace is dropped, one sign
  is allowed, and the digits may be separated by single underscores. Numbers beyond the
  range of the database's integers are not modelled.
\<close>

text \<open>Modelled from the spec: the whitespace characters among the code points below
  256.\<close>

definition is_space :: "char \<Rightarrow> bool" where
  "is_space c =
     (c \<in> set [CHR 0x09, CHR 0x0A, CHR 0x0B, CHR 0x0C, CHR 0x0D, CHR 0x1C, CHR 0x1D,
                CHR 0x1E, CHR 0x1F, CHR 0x20, CHR 0x85, CHR 0xA0])"

text \<open>Modelled from the spec: \<open>s.strip()\<close>, as \<open>int()\<close> drops the whitespace around the
  number.\<close>

definition strip :: "string \<Rightarrow> string" where
  "strip s = rev (dropWhile is_space (rev (dropWhile is_space s)))"

text \<open>Modelled from the spec: the value of a digit, and the value of the digits that
  follow the first one (\<open>acc\<close> is the value read so far).\<close>

definition digit_value :: "char \<Rightarrow> nat" where
  "digit_value c = of_char c - 48"

fun int_digits :: "nat \<Rightarrow> string \<Rightarrow> nat option" where
  "int_digits acc [] = Some acc"
| "int_digits acc [c] = (if is_digit c then Some (10 * acc + digit_value c) else None)"
| "int_digits acc (c # d # ds) =
     (if is_digit c then int_digits (10 * acc + digit_value c) (d # ds)
      else if c = CHR ''_'' \<and> is_digit d then int_digits (10 * acc + digit_value d) ds
      else None)"

text \<open>Modelled from the spec: an unsigned number, which starts with a digit.\<close>

definition int_literal :: "string \<Rightarrow> nat option" where
  "int_literal s =
     (case s of [] \<Rightarrow> None
      | c # cs \<Rightarrow> if is_digit c then int_digits (digit_value c) cs else None)"

text \<open>Modelled from the spec: \<open>int(s)\<close>, with \<open>None\<close> for \<open>ValueError\<close>.\<close>

definition py_int :: "string \<Rightarrow> int option" where
  "py_int s =
     (case strip s of [] \<Rightarrow> None
      | c # cs \<Rightarrow>
          if c = CHR ''+'' then map_option int (int_literal cs)
          else if c = CHR ''-'' then map_option (\<lambda>n. - int n) (int_literal cs)
          else map_option int (int_literal (c # cs)))"

text \<open>Modelled from the spec: the \<open>ValueError\<close> of a key that is not a number, with
  Django's message.\<close>

definition not_a_number :: "string \<Rightarrow> exn" where
  "not_a_number pk =
     Error (''Field '' @ [CHR 0x27] @ ''id'' @ [CHR 0x27] @ '' expected a number but got ''
            @ [CHR 0x27] @ pk @ [CHR 0x27] @ ''.'')"

text \<open>Modelled from the spec: get-by-id, which raises the not-found signal on a miss.\<close>

definition mem_customer_get :: "'p store \<Rightarrow> string \<Rightarrow> exn + Customer" where
  "mem_customer_get st pk =
     (case py_int pk of
        None \<Rightarrow> Inl (not_a_number pk)
      | Some k \<Rightarrow>
          (case find (\<lambda>c. map_option int (Customer_id c) = Some k) (customer_table st) of
             None \<Rightarrow> Inl (ObjectDoesNotExist ''Customer matching query does not exist.'')
           | Some c \<Rightarrow> Inr c))"

text \<open>Modelled from the spec: get-by-id for products, with the same not-found signal.\<close>

definition mem_product_get :: "'p store \<Rightarrow> string \<Rightarrow> exn + 'p Product" where
  "mem_product_get st pk =
     (case py_int pk of
        None \<Rightarrow> Inl (not_a_number pk)
      | Some k \<Rightarrow>
          (case find (\<lambda>p. map_option int (Product_id p) = Some k) (product_table st) of
             None \<Rightarrow> Inl (ObjectDoesNotExist ''Product matching query does not exist.'')
           | Some p \<Rightarrow> Inr p))"

text \<open>Modelled from the spec: save, which stores the record under a fresh key (the
  tables only grow, so the next key is one more than the number of rows).\<close>

definition mem_customer_save :: "'p store \<Rightarrow> Customer \<Rightarrow> 'p store \<times> (exn + nat)" where
  "mem_customer_save st c =
     (let pk = Suc (length (customer_table st))
      in (st\<lparr>customer_table := customer_table st @ [c\<lparr>Customer_id := Some pk\<rparr>]\<rparr>, Inr pk))"

text \<open>Modelled from the spec: save for products, under a fresh key as for customers.\<close>

definition mem_product_save :: "'p store \<Rightarrow> 'p Product \<Rightarrow> 'p store \<times> (exn + nat)" where
  "mem_product_save st p =
     (let pk = Suc (length (product_table st))
      in (st\<lparr>product_table := product_table st @ [p\<lparr>Product_id := Some pk\<rparr>]\<rparr>, Inr pk))"

text \<open>Modelled from the spec: save for orders; a new order has no products until the
  relation is set.\<close>

definition mem_order_save :: "'p store \<Rightarrow> 'p Order \<Rightarrow> 'p store \<times> (exn + nat)" where
  "mem_order_save st ord =
     (let pk = Suc (length (order_table st))
      in (st\<lparr>order_table := order_table st @ [(ord\<lparr>Order_id := Some pk\<rparr>, [])]\<rparr>, Inr pk))"

text \<open>Modelled from the spec: set-relation, which replaces the products of the order.\<close>

definition mem_order_products_set ::
  "'p store \<Rightarrow> 'p Order \<Rightarrow> 'p Product list \<Rightarrow> 'p store \<times> (exn + unit)"
where
  "mem_order_products_set st ord products =
     (st\<lparr>order_table :=
           map (\<lambda>(ord', ps). if Order_id ord' = Order_id ord then (ord', products) else (ord', ps))
             (order_table st)\<rparr>,
      Inr ())"

text \<open>Modelled from the spec: the gateway onto the in-memory store. Its queries raise
  only as get-by-id does, and its writes never raise. So no transaction on it is ever
  rolled back, and its transaction brackets leave the tables as they are.\<close>

definition mem_gateway :: "('p store, 'p) gateway" where
  "mem_gateway =
     \<lparr>customer_email_exists = mem_customer_email_exists,
      customer_get = mem_customer_get,
      customer_save = mem_customer_save,
      product_get = mem_product_get,
      product_save = mem_product_save,
      order_save = mem_order_save,
      order_products_set = mem_order_products_set,
      atomic_enter = (\<lambda>st. (st, Inr ())),
      atomic_exit = (\<lambda>st. (st, Inr ()))\<rparr>"

text \<open>
  Modelled from the spec: a data store whose \<open>save()\<close> can fail, with the store's
  atomic transactions. What the spec leaves open is taken from Django. \<open>tx_block\<close> is
  the state of the tables when the open \<open>atomic\<close> block was entered (\<open>None\<close> outside
  a block). When a write raises inside a block, the block is marked for rollback
  (\<open>tx_needs_rollback\<close>): from then on every query and write raises
  \<open>TransactionManagementError\<close>, and leaving the block, even without an exception,
  rolls the tables back to \<open>tx_block\<close>.
\<close>

record 'p tx_store =
  tx_tables :: "'p store"
  tx_block :: "'p store option"
  tx_needs_rollback :: bool

text \<open>Modelled from the spec: a store with no open transaction.\<close>

definition idle :: "'p store \<Rightarrow> 'p tx_store" where
  "idle tables = \<lparr>tx_tables = tables, tx_block = None, tx_needs_rollback = False\<rparr>"

text \<open>Modelled from the spec: the exception of a call inside a block that is marked for
  rollback, with Django's message.\<close>

definition transaction_error :: exn where
  "transaction_error =
     Error (''An error occurred in the current transaction. You can'' @ [CHR 0x27]
            @ ''t execute queries until the end of the '' @ [CHR 0x27] @ ''atomic''
            @ [CHR 0x27] @ '' block.'')"

text \<open>Modelled from the spec: a query of the in-memory store, run on the tables of the
  transactional store unless the block is marked for rollback.\<close>

definition tx_query :: "('p store \<Rightarrow> exn + 'a) \<Rightarrow> 'p tx_store \<Rightarrow> exn + 'a" where
  "tx_query q st = (if tx_needs_rollback st then Inl transaction_error else q (tx_tables st))"

text \<open>Modelled from the spec: a write on the tables, under the same condition.\<close>

definition tx_write ::
  "('p store \<Rightarrow> 'p store \<times> (exn + 'a)) \<Rightarrow> 'p tx_store \<Rightarrow> 'p tx_store \<times> (exn + 'a)"
where
  "tx_write w st =
     (if tx_needs_rollback st then (st, Inl transaction_error)
      else (case w (tx_tables st) of (tables, r) \<Rightarrow> (st\<lparr>tx_tables := tables\<rparr>, r)))"

text \<open>Modelled from the spec: \<open>save()\<close> of a customer on a store whose name column holds
  \<open>n\<close> characters. A longer name raises and stores nothing; inside a block it marks
  the block for rollback.\<close>

definition capped_customer_save ::
  "nat \<Rightarrow> 'p tx_store \<Rightarrow> Customer \<Rightarrow> 'p tx_store \<times> (exn + nat)"
where
  "capped_customer_save n st c =
     (if tx_needs_rollback st then (st, Inl transaction_error)
      else if n < length (Customer_name c)
      then (st\<lparr>tx_needs_rollback := (tx_block st \<noteq> None)\<rparr>, Inl (Error ''value too long''))
      else tx_write (\<lambda>tables. mem_customer_save tables c) st)"

text \<open>Modelled from the spec: entering the \<open>atomic\<close> block remembers the tables.
  Leaving it commits, or rolls back when the block is marked.\<close>

definition tx_enter :: "'p tx_store \<Rightarrow> 'p tx_store \<times> (exn + unit)" where
  "tx_enter st = (st\<lparr>tx_block := Some (tx_tables st), tx_needs_rollback := False\<rparr>, Inr ())"

text \<open>Modelled from the spec: leaving the block without an exception.\<close>

definition tx_exit :: "'p tx_store \<Rightarrow> 'p tx_store \<times> (exn + unit)" where
  "tx_exit st =
     (case tx_block st of
        None \<Rightarrow> (st, Inr ())
      | Some entered \<Rightarrow>
          (\<lparr>tx_tables = (if tx_needs_rollback st then entered else tx_tables st),
            tx_block = None, tx_needs_rollback = False\<rparr>, Inr ()))"

text \<open>Modelled from the spec: the gateway onto the transactional store with a name
  column of \<open>n\<close> characters.\<close>

definition capped_gateway :: "nat \<Rightarrow> ('p tx_store, 'p) gateway" where
  "capped_gateway n =
     \<lparr>customer_email_exists = (\<lambda>st email. tx_query (\<lambda>tables. mem_customer_email_exists tables email) st),
      customer_get = (\<lambda>st pk. tx_query (\<lambda>tables. mem_customer_get tables pk) st),
      customer_save = capped_customer_save n,
      product_get = (\<lambda>st pk. tx_query (\<lambda>tables. mem_product_get tables pk) st),
      product_save = (\<lambda>st p. tx_write (\<lambda>tables. mem_product_save tables p) st),
      order_save = (\<lambda>st ord. tx_write (\<lambda>tables. mem_order_save tables ord) st),
      order_products_set =
        (\<lambda>st ord ps. tx_write (\<lambda>tables. mem_order_products_set tables ord ps) st),
      atomic_enter = tx_enter,
      atomic_exit = tx_exit\<rparr>"

text \<open>Modelled from the spec: the data store after a connection loss, the spec's example
  of a storage-layer failure. Every call raises.\<close>

definition down_gateway :: "('st, 'p) gateway" where
  "down_gateway =
     \<lparr>customer_email_exists = (\<lambda>st email. Inl (Error ''connection lost'')),
      customer_get = (\<lambda>st pk. Inl (Error ''connection lost'')),
      customer_save = (\<lambda>st c. (st, Inl (Error ''connection lost''))),
      product_get = (\<lambda>st pk. Inl (Error ''connection lost'')),
      product_save = (\<lambda>st p. (st, Inl (Error ''connection lost''))),
      order_save = (\<lambda>st ord. (st, Inl (Error ''connection lost''))),
      order_products_set = (\<lambda>st ord ps. (st, Inl (Error ''connection lost''))),
      atomic_enter = (\<lambda>st. (st, Inl (Error ''connection lost''))),
      atomic_exit = (\<lambda>st. (st, Inl (Error ''connection lost'')))\<rparr>"

text \<open>Modelled from the spec: the store with nothing in it.\<close>

definition empty_store :: "'p store" where
  "empty_store = \<lparr>customer_table = [], product_table = [], order_table = []\<rparr>"

section \<open>Auxiliary notions for the statements\<close>

text \<open>
  The phone formats in the words of the specification, to be compared with what
  \<open>phone_regex\<close> accepts: a plus sign followed by 10 to 15 digits, or three, three and
  four digits separated by hyphens.
\<close>

definition plus_digits :: "string \<Rightarrow> bool" where
  "plus_digits s =
     (case s of [] \<Rightarrow> False
      | c # ds \<Rightarrow> c = CHR ''+'' \<and> 10 \<le> length ds \<and> length ds \<le> 15 \<and> list_all is_digit ds)"

definition dashed :: "string \<Rightarrow> bool" where
  "dashed s =
     (length s = 12 \<and> list_all is_digit (take 3 s) \<and> s ! 3 = CHR ''-''
      \<and> list_all is_digit (take 3 (drop 4 s)) \<and> s ! 7 = CHR ''-''
      \<and> list_all is_digit (drop 8 s))"

definition spec_phone_format :: "string \<Rightarrow> bool" where
  "spec_phone_format s = (plus_digits s \<or> dashed s)"

text \<open>The number of digits a string starts with, and the two rests that \<open>$\<close> admits.\<close>

definition leading_digits :: "string \<Rightarrow> nat" where
  "leading_digits s = length (takeWhile is_digit s)"

definition at_end :: "string \<Rightarrow> bool" where
  "at_end s = (s = [] \<or> s = [newline])"

text \<open>
  What each row of a batch adds to the two lists of \<open>BulkCreateCustomers.mutate\<close>: the
  iteration for the row is run on empty lists, from the store the earlier rows left.
\<close>

fun row_outcomes ::
  "('st, 'p) gateway \<Rightarrow> nat \<Rightarrow> CustomerInput list \<Rightarrow> 'st \<Rightarrow> (Customer list \<times> string list) list"
where
  "row_outcomes gw idx [] st = []"
| "row_outcomes gw idx (data # rest) st =
     (case bulk_row gw idx data (st, [], []) of
        (st', c, e) \<Rightarrow> (c, e) # row_outcomes gw (Suc idx) rest st')"

text \<open>A small shop, for the concrete runs below.\<close>

definition ann :: Customer where
  "ann = \<lparr>Customer_id = Some 1, Customer_name = ''Ann'', Customer_email = ''ann@example.com'',
          Customer_phone = None\<rparr>"

definition pen :: "int Product" where
  "pen = \<lparr>Product_id = Some 1, Product_name = ''pen'', Product_price = 3, Product_stock = 10\<rparr>"

definition ink :: "int Product" where
  "ink = \<lparr>Product_id = Some 2, Product_name = ''ink'', Product_price = 7, Product_stock = 0\<rparr>"

definition shop :: "int store" where
  "shop = \<lparr>customer_table = [ann], product_table = [pen, ink], order_table = []\<rparr>"

text \<open>Rows of a batch: a new customer, a row with Ann's email, a row with a malformed
  phone, another new customer, and a row whose name is longer than 20 characters.\<close>

definition bob_row :: CustomerInput where
  "bob_row = \<lparr>input_name = ''Bob'', input_email = ''bob@example.com'',
              input_phone = Some ''+12345678901''\<rparr>"

definition ann_row :: CustomerInput where
  "ann_row = \<lparr>input_name = ''Ann B'', input_email = ''ann@example.com'', input_phone = None\<rparr>"

definition cy_row :: CustomerInput where
  "cy_row = \<lparr>input_name = ''Cy'', input_email = ''cy@example.com'',
             input_phone = Some ''555-1234''\<rparr>"

definition eve_row :: CustomerInput where
  "eve_row = \<lparr>input_name = ''Eve'', input_email = ''eve@example.com'',
              input_phone = Some ''123-456-7890''\<rparr>"

definition max_row :: CustomerInput where
  "max_row = \<lparr>input_name = ''Maximilian Bartholomew Featherstonehaugh'',
              input_email = ''max@example.com'', input_phone = None\<rparr>"

text \<open>The records that saving \<open>bob_row\<close> and then \<open>eve_row\<close> into the shop creates, and
  the order of a pen, an ink and a pen placed by Ann at time 100.\<close>

definition bob :: Customer where
  "bob = \<lparr>Customer_id = Some 2, Customer_name = ''Bob'', Customer_email = ''bob@example.com'',
          Customer_phone = Some ''+12345678901''\<rparr>"

definition eve :: Customer where
  "eve = \<lparr>Customer_id = Some 3, Customer_name = ''Eve'', Customer_email = ''eve@example.com'',
          Customer_phone = Some ''123-456-7890''\<rparr>"

definition ann_order :: "int Order" where
  "ann_order = \<lparr>Order_id = Some 1, Order_customer = ann, Order_order_date = 100,
                Order_total_amount = 13\<rparr>"

section \<open>Evaluation of the store and of the formatting\<close>

lemma py_int_1: "py_int ''1'' = Some 1"
  by code_simp

lemma py_int_2: "py_int ''2'' = Some 2"
  by code_simp

lemma py_int_5: "py_int ''5'' = Some 5"
  by code_simp

lemma py_int_7: "py_int ''7'' = Some 7"
  by code_simp

lemma py_int_abc: "py_int ''abc'' = None"
  by code_simp

lemma py_int_x: "py_int ''x'' = None"
  by code_simp

lemmas py_int_evals = py_int_1 py_int_2 py_int_5 py_int_7 py_int_abc py_int_x

lemmas store_defs = mem_gateway_def mem_customer_email_exists_def mem_customer_save_def
  mem_product_save_def mem_customer_get_def mem_product_get_def mem_order_save_def
  mem_order_products_set_def empty_store_def capped_gateway_def down_gateway_def
  ann_def pen_def ink_def shop_def py_int_evals
  idle_def tx_query_def tx_write_def capped_customer_save_def tx_enter_def tx_exit_def

lemma str_nat_digit: "n < 10 \<Longrightarrow> str_nat n = [digit_char n]"
  by (simp add: str_nat.simps)

lemma str_nat_1: "str_nat (Suc 0) = ''1''"
  by (simp add: str_nat.simps digit_char_def)

lemma str_nat_2: "str_nat (Suc (Suc 0)) = ''2''"
  by (simp add: str_nat.simps digit_char_def)

lemma mem_exists_stored:
  "c \<in> set (customer_table st) \<Longrightarrow>
     customer_email_exists mem_gateway st (Customer_email c) = Inr True"
  by (simp add: mem_gateway_def mem_customer_email_exists_def)

lemmas row_defs = bob_row_def ann_row_def cy_row_def eve_row_def max_row_def

lemma phone_ok_bob: "\<not> phone_rejected (Some ''+12345678901'')"
proof -
  have "re_match phone_regex ''+12345678901''" by code_simp
  then show ?thesis by (simp add: phone_rejected_def)
qed

lemma phone_ok_eve: "\<not> phone_rejected (Some ''123-456-7890'')"
proof -
  have "re_match phone_regex ''123-456-7890''" by code_simp
  then show ?thesis by (simp add: phone_rejected_def)
qed

lemma phone_bad_cy: "phone_rejected (Some ''555-1234'')"
proof -
  have "\<not> re_match phone_regex ''555-1234''" by code_simp
  then show ?thesis by (simp add: phone_rejected_def)
qed

lemma phone_ok_None: "\<not> phone_rejected None"
  by (simp add: phone_rejected_def)

lemma phone_ok_empty: "\<not> phone_rejected (Some '''')"
  by (simp add: phone_rejected_def)

lemma empty_no_match: "\<not> re_match phone_regex ''''"
  by code_simp

lemmas phone_evals = phone_ok_bob phone_ok_eve phone_bad_cy phone_ok_None phone_ok_empty

lemmas eval_simps = store_defs row_defs phone_evals str_nat_1 str_nat_2 str_nat_digit
  digit_char_def row_prefix_def

section \<open>What the phone pattern accepts\<close>

lemma leading_digits_Nil [simp]: "leading_digits [] = 0"
  by (simp add: leading_digits_def)

lemma leading_digits_Cons [simp]:
  "leading_digits (x # t) = (if is_digit x then Suc (leading_digits t) else 0)"
  by (simp add: leading_digits_def)

lemma le_leading_digits_iff:
  "k \<le> leading_digits s \<longleftrightarrow> k \<le> length s \<and> list_all is_digit (take k s)"
proof (induction s arbitrary: k)
  case Nil
  then show ?case by simp
next
  case (Cons x t)
  then show ?case by (cases k) auto
qed

lemma leading_digits_drop:
  "m \<le> leading_digits s \<Longrightarrow> leading_digits s = m + leading_digits (drop m s)"
proof (induction s arbitrary: m)
  case Nil
  then show ?case by simp
next
  case (Cons x t)
  then show ?case by (cases m) (auto split: if_splits)
qed

lemma ex_le_Suc: "(\<exists>k. k \<le> Suc n \<and> P k) \<longleftrightarrow> P 0 \<or> (\<exists>k. k \<le> n \<and> P (Suc k))"
proof
  assume "\<exists>k. k \<le> Suc n \<and> P k"
  then obtain k where k: "k \<le> Suc n" "P k" by blast
  show "P 0 \<or> (\<exists>k. k \<le> n \<and> P (Suc k))"
  proof (cases k)
    case 0
    with k show ?thesis by simp
  next
    case (Suc j)
    with k show ?thesis by auto
  qed
next
  assume "P 0 \<or> (\<exists>k. k \<le> n \<and> P (Suc k))"
  then show "\<exists>k. k \<le> Suc n \<and> P k" by auto
qed

lemma ends_times_Digit:
  "q \<in> set (rx_ends (rx_times n Digit) (i, s)) \<longleftrightarrow>
     n \<le> leading_digits s \<and> q = (i + n, drop n s)"
proof (induction n arbitrary: i s)
  case 0
  then show ?case by auto
next
  case (Suc n)
  show ?case
  proof (cases s)
    case Nil
    then show ?thesis by simp
  next
    case (Cons x t)
    then show ?thesis using Suc [of "Suc i" t] by simp
  qed
qed

lemma ends_upto_Digit:
  "q \<in> set (rx_ends (rx_upto n Digit) (i, s)) \<longleftrightarrow>
     (\<exists>k. k \<le> n \<and> k \<le> leading_digits s \<and> q = (i + k, drop k s))"
proof (induction n arbitrary: i s)
  case 0
  then show ?case by auto
next
  case (Suc n)
  show ?case
  proof (cases s)
    case Nil
    then show ?thesis by auto
  next
    case (Cons x t)
    then show ?thesis using Suc [of "Suc i" t] by (simp add: ex_le_Suc)
  qed
qed

lemma ends_Rep_Digit:
  assumes "m \<le> n"
  shows "q \<in> set (rx_ends (Rep m n Digit) (i, s)) \<longleftrightarrow>
     (\<exists>k. m \<le> k \<and> k \<le> n \<and> k \<le> leading_digits s \<and> q = (i + k, drop k s))"
proof
  assume "q \<in> set (rx_ends (Rep m n Digit) (i, s))"
  then obtain p where p: "p \<in> set (rx_ends (rx_times m Digit) (i, s))"
      and q: "q \<in> set (rx_ends (rx_upto (n - m) Digit) p)"
    by (auto simp: Rep_def)
  from p have m: "m \<le> leading_digits s" and p_eq: "p = (i + m, drop m s)"
    by (simp_all add: ends_times_Digit)
  from q obtain k where k: "k \<le> n - m" "k \<le> leading_digits (drop m s)"
      "q = (i + m + k, drop k (drop m s))"
    unfolding p_eq ends_upto_Digit by blast
  from m k(2) have "m + k \<le> leading_digits s"
    using leading_digits_drop [OF m] by simp
  with k assms show "\<exists>k. m \<le> k \<and> k \<le> n \<and> k \<le> leading_digits s \<and> q = (i + k, drop k s)"
    by (intro exI [of _ "m + k"]) (simp add: add.commute)
next
  assume "\<exists>k. m \<le> k \<and> k \<le> n \<and> k \<le> leading_digits s \<and> q = (i + k, drop k s)"
  then obtain k where k: "m \<le> k" "k \<le> n" "k \<le> leading_digits s" "q = (i + k, drop k s)"
    by blast
  from k have m: "m \<le> leading_digits s" by simp
  have 1: "(i + m, drop m s) \<in> set (rx_ends (rx_times m Digit) (i, s))"
    using m by (simp add: ends_times_Digit)
  have "k - m \<le> leading_digits (drop m s)"
    using k(3) leading_digits_drop [OF m] by simp
  then have 2: "q \<in> set (rx_ends (rx_upto (n - m) Digit) (i + m, drop m s))"
    unfolding ends_upto_Digit using k
    by (intro exI [of _ "k - m"]) (simp add: add.commute)
  from 1 2 show "q \<in> set (rx_ends (Rep m n Digit) (i, s))"
    by (auto simp: Rep_def)
qed

lemma ends_Lit: "q \<in> set (rx_ends (Lit c) (i, s)) \<longleftrightarrow> (\<exists>t. s = c # t \<and> q = (Suc i, t))"
  by (cases s) auto

lemma ends_Seq:
  "q \<in> set (rx_ends (Seq a b) p) \<longleftrightarrow> (\<exists>r. r \<in> set (rx_ends a p) \<and> q \<in> set (rx_ends b r))"
  by auto

lemma ends_Alt:
  "q \<in> set (rx_ends (Alt a b) p) \<longleftrightarrow> q \<in> set (rx_ends a p) \<or> q \<in> set (rx_ends b p)"
  by simp

lemma ends_Bol: "q \<in> set (rx_ends Bol (i, s)) \<longleftrightarrow> i = 0 \<and> q = (i, s)"
  by auto

lemma ends_Eol: "q \<in> set (rx_ends Eol (i, s)) \<longleftrightarrow> (s = [] \<or> s = [newline]) \<and> q = (i, s)"
  by auto

lemma ends_Rep_same:
  "q \<in> set (rx_ends (Rep n n Digit) (i, s)) \<longleftrightarrow>
     n \<le> leading_digits s \<and> q = (i + n, drop n s)"
  by (auto simp: ends_Rep_Digit)

lemma re_match_iff: "re_match r s \<longleftrightarrow> (\<exists>q. q \<in> set (rx_ends r (0, s)))"
  by (cases "rx_ends r (0, s)") (auto simp: re_match_def)

lemma plus_branch:
  "q \<in> set (rx_ends (Seq (Lit (CHR ''+'')) (Rep 10 15 Digit)) (0, s)) \<longleftrightarrow>
     (\<exists>ds k. s = CHR ''+'' # ds \<and> 10 \<le> k \<and> k \<le> 15 \<and> k \<le> leading_digits ds
        \<and> q = (Suc k, drop k ds))"
  by (auto simp del: rx_ends.simps simp add: ends_Seq ends_Lit ends_Rep_Digit)

lemma dashed_branch:
  "q \<in> set (rx_ends (Seq (Rep 3 3 Digit) (Seq (Lit (CHR ''-'')) (Seq (Rep 3 3 Digit)
          (Seq (Lit (CHR ''-'')) (Rep 4 4 Digit))))) (0, s)) \<longleftrightarrow>
     (\<exists>t1 t2. 3 \<le> leading_digits s \<and> drop 3 s = CHR ''-'' # t1 \<and> 3 \<le> leading_digits t1
        \<and> drop 3 t1 = CHR ''-'' # t2 \<and> 4 \<le> leading_digits t2 \<and> q = (12, drop 4 t2))"
  by (auto simp del: rx_ends.simps simp add: ends_Seq ends_Lit ends_Rep_same)

lemma phone_regex_ends:
  "q \<in> set (rx_ends phone_regex (0, s)) \<longleftrightarrow>
     (q \<in> set (rx_ends (Seq (Lit (CHR ''+'')) (Rep 10 15 Digit)) (0, s))
      \<or> q \<in> set (rx_ends (Seq (Rep 3 3 Digit) (Seq (Lit (CHR ''-'')) (Seq (Rep 3 3 Digit)
          (Seq (Lit (CHR ''-'')) (Rep 4 4 Digit))))) (0, s)))
     \<and> at_end (snd q)"
    (is "?L \<longleftrightarrow> (?A \<or> ?B) \<and> ?E")
proof -
  have "?L \<longleftrightarrow> (\<exists>r. (r \<in> set (rx_ends (Seq (Lit (CHR ''+'')) (Rep 10 15 Digit)) (0, s))
      \<or> r \<in> set (rx_ends (Seq (Rep 3 3 Digit) (Seq (Lit (CHR ''-'')) (Seq (Rep 3 3 Digit)
          (Seq (Lit (CHR ''-'')) (Rep 4 4 Digit))))) (0, s))) \<and> q \<in> set (rx_ends Eol r))"
    unfolding phone_regex_def
    by (simp del: rx_ends.simps
        add: ends_Seq [of _ Bol] ends_Seq [of _ "Alt _ _"] ends_Bol ends_Alt)
  also have "\<dots> \<longleftrightarrow> (?A \<or> ?B) \<and> ?E"
    by (cases q) (auto simp del: rx_ends.simps simp add: ends_Eol at_end_def)
  finally show ?thesis .
qed

lemma phone_regex_match_iff:
  "re_match phone_regex s \<longleftrightarrow>
     (\<exists>ds k. s = CHR ''+'' # ds \<and> 10 \<le> k \<and> k \<le> 15 \<and> k \<le> leading_digits ds
        \<and> at_end (drop k ds))
     \<or> (\<exists>t1 t2. 3 \<le> leading_digits s \<and> drop 3 s = CHR ''-'' # t1 \<and> 3 \<le> leading_digits t1
        \<and> drop 3 t1 = CHR ''-'' # t2 \<and> 4 \<le> leading_digits t2 \<and> at_end (drop 4 t2))"
  unfolding re_match_iff phone_regex_ends plus_branch dashed_branch
  by (simp add: ex_disj_distrib) blast

lemma digits_then_rest:
  "k \<le> leading_digits s \<and> drop k s = rest \<longleftrightarrow>
     (\<exists>t. s = t @ rest \<and> length t = k \<and> list_all is_digit t)"
proof
  assume a: "k \<le> leading_digits s \<and> drop k s = rest"
  then have "k \<le> length s" "list_all is_digit (take k s)"
    by (simp_all add: le_leading_digits_iff)
  with a have "s = take k s @ rest \<and> length (take k s) = k \<and> list_all is_digit (take k s)"
    by auto
  then show "\<exists>t. s = t @ rest \<and> length t = k \<and> list_all is_digit t" by blast
next
  assume "\<exists>t. s = t @ rest \<and> length t = k \<and> list_all is_digit t"
  then show "k \<le> leading_digits s \<and> drop k s = rest"
    by (auto simp: le_leading_digits_iff)
qed

lemma plus_rest:
  "(\<exists>ds k. s = CHR ''+'' # ds \<and> 10 \<le> k \<and> k \<le> 15 \<and> k \<le> leading_digits ds
      \<and> drop k ds = rest)
     \<longleftrightarrow> (\<exists>u. s = u @ rest \<and> plus_digits u)"
proof
  assume "\<exists>ds k. s = CHR ''+'' # ds \<and> 10 \<le> k \<and> k \<le> 15 \<and> k \<le> leading_digits ds
      \<and> drop k ds = rest"
  then obtain ds k where s: "s = CHR ''+'' # ds" and k: "10 \<le> k" "k \<le> 15"
      and d: "k \<le> leading_digits ds \<and> drop k ds = rest"
    by blast
  from d obtain t where t: "ds = t @ rest" "length t = k" "list_all is_digit t"
    unfolding digits_then_rest by blast
  with s k have "s = (CHR ''+'' # t) @ rest \<and> plus_digits (CHR ''+'' # t)"
    by (simp add: plus_digits_def)
  then show "\<exists>u. s = u @ rest \<and> plus_digits u" by blast
next
  assume "\<exists>u. s = u @ rest \<and> plus_digits u"
  then obtain u where u: "s = u @ rest" "plus_digits u" by blast
  then obtain t where t: "u = CHR ''+'' # t" "10 \<le> length t" "length t \<le> 15"
      "list_all is_digit t"
    by (cases u) (auto simp: plus_digits_def)
  have "length t \<le> leading_digits (t @ rest) \<and> drop (length t) (t @ rest) = rest"
    unfolding digits_then_rest using t by blast
  with u t show "\<exists>ds k. s = CHR ''+'' # ds \<and> 10 \<le> k \<and> k \<le> 15 \<and> k \<le> leading_digits ds
      \<and> drop k ds = rest"
    by (intro exI [of _ "t @ rest"] exI [of _ "length t"]) simp
qed

lemma dashed_split:
  "dashed u \<longleftrightarrow>
     (\<exists>a b c. u = a @ CHR ''-'' # b @ CHR ''-'' # c \<and> length a = 3 \<and> length b = 3 \<and> length c = 4
        \<and> list_all is_digit a \<and> list_all is_digit b \<and> list_all is_digit c)"
proof
  assume d: "dashed u"
  then have len: "length u = 12" by (simp add: dashed_def)
  have 1: "u = take 3 u @ u ! 3 # drop 4 u"
    using len id_take_nth_drop [of 3 u] by simp
  have 2: "drop 4 u = take 3 (drop 4 u) @ u ! 7 # drop 8 u"
    using len id_take_nth_drop [of 3 "drop 4 u"] by simp
  from 1 2 have "u = take 3 u @ u ! 3 # take 3 (drop 4 u) @ u ! 7 # drop 8 u"
    by simp
  with d len show "\<exists>a b c. u = a @ CHR ''-'' # b @ CHR ''-'' # c \<and> length a = 3 \<and> length b = 3
        \<and> length c = 4 \<and> list_all is_digit a \<and> list_all is_digit b \<and> list_all is_digit c"
    by (intro exI [of _ "take 3 u"] exI [of _ "take 3 (drop 4 u)"] exI [of _ "drop 8 u"])
      (simp add: dashed_def)
next
  assume "\<exists>a b c. u = a @ CHR ''-'' # b @ CHR ''-'' # c \<and> length a = 3 \<and> length b = 3
        \<and> length c = 4 \<and> list_all is_digit a \<and> list_all is_digit b \<and> list_all is_digit c"
  then show "dashed u"
    by (auto simp: dashed_def nth_append)
qed

lemma dashed_rest:
  "(\<exists>t1 t2. 3 \<le> leading_digits s \<and> drop 3 s = CHR ''-'' # t1 \<and> 3 \<le> leading_digits t1
        \<and> drop 3 t1 = CHR ''-'' # t2 \<and> 4 \<le> leading_digits t2 \<and> drop 4 t2 = rest)
     \<longleftrightarrow> (\<exists>u. s = u @ rest \<and> dashed u)"
proof -
  have "(\<exists>t1 t2. 3 \<le> leading_digits s \<and> drop 3 s = CHR ''-'' # t1 \<and> 3 \<le> leading_digits t1
        \<and> drop 3 t1 = CHR ''-'' # t2 \<and> 4 \<le> leading_digits t2 \<and> drop 4 t2 = rest)
     \<longleftrightarrow> (\<exists>t1 t2. (3 \<le> leading_digits s \<and> drop 3 s = CHR ''-'' # t1)
            \<and> (3 \<le> leading_digits t1 \<and> drop 3 t1 = CHR ''-'' # t2)
            \<and> (4 \<le> leading_digits t2 \<and> drop 4 t2 = rest))"
    by blast
  also have "\<dots> \<longleftrightarrow> (\<exists>a b c. s = a @ CHR ''-'' # b @ CHR ''-'' # c @ rest \<and> length a = 3
        \<and> length b = 3 \<and> length c = 4
        \<and> list_all is_digit a \<and> list_all is_digit b \<and> list_all is_digit c)"
    unfolding digits_then_rest by blast
  also have "\<dots> \<longleftrightarrow> (\<exists>u. s = u @ rest \<and> dashed u)"
    unfolding dashed_split by (simp add: ex_simps [symmetric] del: ex_simps)
  finally show ?thesis .
qed

text \<open>
  On the strings modelled here (code points below 256, where \<open>\d\<close> is \<open>0\<close> to
  \<open>9\<close>), the pattern accepts the two formats of the specification, and each of them
  followed by one newline: \<open>$\<close> also matches just before a newline that ends the
  subject.
\<close>

lemma phone_regex_accepts:
  "re_match phone_regex s \<longleftrightarrow>
     spec_phone_format s \<or> (\<exists>t. s = t @ [newline] \<and> spec_phone_format t)"
proof -
  have "re_match phone_regex s \<longleftrightarrow>
      (\<exists>rest. at_end rest \<and>
         ((\<exists>ds k. s = CHR ''+'' # ds \<and> 10 \<le> k \<and> k \<le> 15 \<and> k \<le> leading_digits ds
              \<and> drop k ds = rest)
          \<or> (\<exists>t1 t2. 3 \<le> leading_digits s \<and> drop 3 s = CHR ''-'' # t1
                \<and> 3 \<le> leading_digits t1 \<and> drop 3 t1 = CHR ''-'' # t2
                \<and> 4 \<le> leading_digits t2 \<and> drop 4 t2 = rest)))"
    unfolding phone_regex_match_iff by blast
  also have "\<dots> \<longleftrightarrow> (\<exists>rest. at_end rest \<and> (\<exists>u. s = u @ rest \<and> spec_phone_format u))"
    unfolding plus_rest dashed_rest spec_phone_format_def by blast
  also have "\<dots> \<longleftrightarrow> spec_phone_format s \<or> (\<exists>t. s = t @ [newline] \<and> spec_phone_format t)"
    by (auto simp: at_end_def)
  finally show ?thesis .
qed

section \<open>Phone validation\<close>

lemma newline_phone_matches: "re_match phone_regex (''+1234567890'' @ [newline])"
  by code_simp

lemma newline_phone_not_spec: "\<not> spec_phone_format (''+1234567890'' @ [newline])"
  by (simp add: spec_phone_format_def plus_digits_def dashed_def is_digit_def newline_def)

text \<open>
  C4. Phone validation is to accept exactly a plus sign followed by 10 to 15 digits, or
  three, three and four digits separated by hyphens, and to reject every other non-empty
  value. The phone \<open>+1234567890\<close> followed by a newline is in neither format, yet the
  pattern matches it, the check does not reject it, and \<open>CreateCustomer.mutate\<close> stores
  it as the phone of a new customer.
\<close>

theorem phone_trailing_newline_accepted:
  "re_match phone_regex (''+1234567890'' @ [CHR 0x0A])
   \<and> \<not> spec_phone_format (''+1234567890'' @ [CHR 0x0A])
   \<and> \<not> phone_rejected (Some (''+1234567890'' @ [CHR 0x0A]))
   \<and> CreateCustomer_mutate mem_gateway (empty_store :: int store) ''Ann'' ''ann@example.com''
        (Some (''+1234567890'' @ [CHR 0x0A])) =
      (\<lparr>customer_table = [\<lparr>Customer_id = Some 1, Customer_name = ''Ann'',
             Customer_email = ''ann@example.com'',
             Customer_phone = Some (''+1234567890'' @ [CHR 0x0A])\<rparr>],
         product_table = [], order_table = []\<rparr>,
       Inr \<lparr>cc_customer = Some \<lparr>Customer_id = Some 1, Customer_name = ''Ann'',
             Customer_email = ''ann@example.com'',
             Customer_phone = Some (''+1234567890'' @ [CHR 0x0A])\<rparr>,
            cc_success = True, cc_message = ''Customer created successfully.''\<rparr>)"
  using newline_phone_matches newline_phone_not_spec
  by (simp add: CreateCustomer_mutate_def phone_rejected_def store_defs newline_def)

section \<open>CreateCustomer\<close>

text \<open>
  C5. A \<open>CreateCustomer\<close> call whose email is the email of a customer that is already
  stored returns the failure result with the message \<open>Email already exists.\<close> and
  leaves the store as it was. This holds for every store whose existence check answers
  true for the email, and in particular for the in-memory store and the email of any
  customer \<open>c\<close> in its table.
\<close>

theorem CreateCustomer_duplicate_email:
  "(customer_email_exists gw st email = Inr True \<longrightarrow>
      CreateCustomer_mutate gw st name email phone =
        (st, Inr \<lparr>cc_customer = None, cc_success = False,
                  cc_message = ''Email already exists.''\<rparr>))
   \<and> (c \<in> set (customer_table db) \<longrightarrow>
      CreateCustomer_mutate mem_gateway db name (Customer_email c) phone =
        (db, Inr \<lparr>cc_customer = None, cc_success = False,
                  cc_message = ''Email already exists.''\<rparr>))"
  by (simp add: CreateCustomer_mutate_def mem_exists_stored)

theorem CreateCustomer_duplicate_email_witness:
  "customer_email_exists mem_gateway shop ''ann@example.com'' = Inr True
   \<and> ann \<in> set (customer_table shop)
   \<and> CreateCustomer_mutate mem_gateway shop ''Bob'' ''ann@example.com'' (Some ''+12345678901'') =
        (shop, Inr \<lparr>cc_customer = None, cc_success = False,
                    cc_message = ''Email already exists.''\<rparr>)
   \<and> CreateCustomer_mutate mem_gateway shop ''Bob'' (Customer_email ann) None =
        (shop, Inr \<lparr>cc_customer = None, cc_success = False,
                    cc_message = ''Email already exists.''\<rparr>)"
proof -
  have h1: "customer_email_exists mem_gateway shop ''ann@example.com'' = Inr True"
    by (simp add: store_defs)
  have h2: "ann \<in> set (customer_table shop)"
    by (simp add: shop_def)
  show ?thesis
    using h1 h2
      CreateCustomer_duplicate_email [where gw = mem_gateway and st = shop
        and email = "''ann@example.com''" and name = "''Bob''"
        and phone = "Some ''+12345678901''" and c = ann and db = shop]
      CreateCustomer_duplicate_email [where gw = mem_gateway and st = shop
        and email = "''ann@example.com''" and name = "''Bob''"
        and phone = None and c = ann and db = shop]
    by simp
qed

text \<open>
  C10. A phone that is the empty string is treated like an absent one: \<open>if phone:\<close>
  is false for it, so the pattern (which the empty string does not match) is never
  consulted. With an email that is not yet stored and a store that saves the record, both
  \<open>CreateCustomer.mutate\<close> and an iteration of the bulk loop create the customer, and
  the record handed to \<open>save()\<close> and returned carries the empty string as its phone.
\<close>

theorem empty_phone_is_absent:
  assumes "customer_email_exists gw st email = Inr False"
    and "customer_save gw st \<lparr>Customer_id = None, Customer_name = name, Customer_email = email,
                               Customer_phone = Some ''''\<rparr> = (st', Inr pk)"
  shows "\<not> re_match phone_regex ''''
       \<and> CreateCustomer_mutate gw st name email (Some '''') =
           (st', Inr \<lparr>cc_customer = Some \<lparr>Customer_id = Some pk, Customer_name = name,
                                           Customer_email = email, Customer_phone = Some ''''\<rparr>,
                      cc_success = True, cc_message = ''Customer created successfully.''\<rparr>)
       \<and> bulk_row gw idx \<lparr>input_name = name, input_email = email, input_phone = Some ''''\<rparr>
             (st, created, errors) =
           (st', created @ [\<lparr>Customer_id = Some pk, Customer_name = name,
                             Customer_email = email, Customer_phone = Some ''''\<rparr>], errors)"
  using assms
  by (simp add: CreateCustomer_mutate_def bulk_row_def phone_ok_empty empty_no_match)

theorem empty_phone_is_absent_witness:
  "customer_email_exists mem_gateway shop ''bob@example.com'' = Inr False
   \<and> customer_save mem_gateway shop
        \<lparr>Customer_id = None, Customer_name = ''Bob'', Customer_email = ''bob@example.com'',
         Customer_phone = Some ''''\<rparr> =
       (shop\<lparr>customer_table := [ann, \<lparr>Customer_id = Some 2, Customer_name = ''Bob'',
                      Customer_email = ''bob@example.com'', Customer_phone = Some ''''\<rparr>]\<rparr>, Inr 2)
   \<and> CreateCustomer_mutate mem_gateway shop ''Bob'' ''bob@example.com'' (Some '''') =
       (shop\<lparr>customer_table := [ann, \<lparr>Customer_id = Some 2, Customer_name = ''Bob'',
                      Customer_email = ''bob@example.com'', Customer_phone = Some ''''\<rparr>]\<rparr>,
        Inr \<lparr>cc_customer = Some \<lparr>Customer_id = Some 2, Customer_name = ''Bob'',
                      Customer_email = ''bob@example.com'', Customer_phone = Some ''''\<rparr>,
                      cc_success = True, cc_message = ''Customer created successfully.''\<rparr>)
   \<and> bulk_row mem_gateway 0
         \<lparr>input_name = ''Bob'', input_email = ''bob@example.com'', input_phone = Some ''''\<rparr>
         (shop, [], []) =
       (shop\<lparr>customer_table := [ann, \<lparr>Customer_id = Some 2, Customer_name = ''Bob'',
                      Customer_email = ''bob@example.com'', Customer_phone = Some ''''\<rparr>]\<rparr>,
        [\<lparr>Customer_id = Some 2, Customer_name = ''Bob'',
                      Customer_email = ''bob@example.com'', Customer_phone = Some ''''\<rparr>], [])"
proof -
  have h1: "customer_email_exists mem_gateway shop ''bob@example.com'' = Inr False"
    by (simp add: store_defs)
  have h2: "customer_save mem_gateway shop
       \<lparr>Customer_id = None, Customer_name = ''Bob'', Customer_email = ''bob@example.com'',
                               Customer_phone = Some ''''\<rparr> =
       (shop\<lparr>customer_table := [ann, \<lparr>Customer_id = Some 2, Customer_name = ''Bob'',
                      Customer_email = ''bob@example.com'', Customer_phone = Some ''''\<rparr>]\<rparr>, Inr 2)"
    by (simp add: store_defs)
  show ?thesis
    using h1 h2 empty_phone_is_absent [OF h1 h2, of 0 "[]" "[]"] by simp
qed

text \<open>
  The claim C8 says that \<open>CreateCustomer.mutate\<close> never raises. It has no handler: here
  the store's name column holds 20 characters and \<open>save()\<close> raises for the longer
  name, and the exception leaves \<open>mutate\<close>.
\<close>

theorem CreateCustomer_store_exception_propagates:
  "CreateCustomer_mutate (capped_gateway 20) (idle (empty_store :: int store))
      ''Maximilian Bartholomew Featherstonehaugh'' ''max@example.com'' None =
     (idle empty_store, Inl (Error ''value too long''))"
  by (simp add: CreateCustomer_mutate_def store_defs phone_rejected_def)

text \<open>
  C8, as amended. An exception leaves \<open>CreateCustomer.mutate\<close> exactly when the
  existence check raises it, or when the email is new, the phone is not rejected and
  \<open>save()\<close> raises it. Whenever \<open>mutate\<close> returns, the result is either a success
  with the customer set or a failure with no customer.
\<close>

theorem CreateCustomer_result_or_store_exception:
  "(\<forall>e. snd (CreateCustomer_mutate gw st name email phone) = Inl e \<longleftrightarrow>
        customer_email_exists gw st email = Inl e
        \<or> customer_email_exists gw st email = Inr False \<and> \<not> phone_rejected phone
          \<and> snd (customer_save gw st \<lparr>Customer_id = None, Customer_name = name,
                 Customer_email = email, Customer_phone = phone\<rparr>) = Inl e)
   \<and> (\<forall>r. snd (CreateCustomer_mutate gw st name email phone) = Inr r \<longrightarrow>
        (cc_success r \<and> cc_customer r \<noteq> None) \<or> (\<not> cc_success r \<and> cc_customer r = None))"
  by (auto simp: CreateCustomer_mutate_def Let_def split: sum.splits bool.splits prod.splits)

theorem CreateCustomer_result_or_store_exception_witness:
  "snd (CreateCustomer_mutate mem_gateway shop ''Bob'' ''bob@example.com'' None) =
      Inr \<lparr>cc_customer = Some \<lparr>Customer_id = Some 2, Customer_name = ''Bob'',
              Customer_email = ''bob@example.com'', Customer_phone = None\<rparr>,
           cc_success = True, cc_message = ''Customer created successfully.''\<rparr>
   \<and> snd (CreateCustomer_mutate mem_gateway shop ''Bob'' ''bob@example.com'' (Some ''555-1234'')) =
      Inr \<lparr>cc_customer = None, cc_success = False, cc_message = ''Invalid phone format.''\<rparr>
   \<and> customer_email_exists (capped_gateway 20) (idle shop) ''max@example.com'' = Inr False
   \<and> snd (customer_save (capped_gateway 20) (idle shop)
        \<lparr>Customer_id = None, Customer_name = ''Maximilian Bartholomew Featherstonehaugh'',
         Customer_email = ''max@example.com'', Customer_phone = None\<rparr>) =
      Inl (Error ''value too long'')
   \<and> snd (CreateCustomer_mutate (capped_gateway 20) (idle shop)
        ''Maximilian Bartholomew Featherstonehaugh'' ''max@example.com'' None) =
      Inl (Error ''value too long'')"
proof -
  have ok: "snd (CreateCustomer_mutate mem_gateway shop ''Bob'' ''bob@example.com'' None) =
      Inr \<lparr>cc_customer = Some \<lparr>Customer_id = Some 2, Customer_name = ''Bob'',
              Customer_email = ''bob@example.com'', Customer_phone = None\<rparr>,
           cc_success = True, cc_message = ''Customer created successfully.''\<rparr>"
    by (simp add: CreateCustomer_mutate_def eval_simps)
  have bad: "snd (CreateCustomer_mutate mem_gateway shop ''Bob'' ''bob@example.com''
        (Some ''555-1234'')) =
      Inr \<lparr>cc_customer = None, cc_success = False, cc_message = ''Invalid phone format.''\<rparr>"
    by (simp add: CreateCustomer_mutate_def eval_simps)
  have h1: "customer_email_exists (capped_gateway 20) (idle shop) ''max@example.com'' = Inr False"
    by (simp add: store_defs)
  have h2: "snd (customer_save (capped_gateway 20) (idle shop)
        \<lparr>Customer_id = None, Customer_name = ''Maximilian Bartholomew Featherstonehaugh'',
         Customer_email = ''max@example.com'', Customer_phone = None\<rparr>) =
      Inl (Error ''value too long'')"
    by (simp add: store_defs)
  have raised: "snd (CreateCustomer_mutate (capped_gateway 20) (idle shop)
        ''Maximilian Bartholomew Featherstonehaugh'' ''max@example.com'' None) =
      Inl (Error ''value too long'')"
    using h1 h2 phone_ok_None
      CreateCustomer_result_or_store_exception [where gw = "capped_gateway 20" and st = "idle shop"
        and name = "''Maximilian Bartholomew Featherstonehaugh''"
        and email = "''max@example.com''" and phone = None]
    by blast
  from ok bad h1 h2 raised show ?thesis by blast
qed

section \<open>CreateProduct\<close>

text \<open>
  The claim C6 says that every call that passes the two checks persists the product and
  returns a success. \<open>CreateProduct.mutate\<close> has no handler: when the store cannot be
  reached \<open>save()\<close> raises and the exception leaves \<open>mutate\<close>; and with an explicit
  null for \<open>stock\<close> the comparison \<open>stock < 0\<close> raises before anything is saved.
\<close>

theorem CreateProduct_raises:
  "CreateProduct_mutate (down_gateway :: (unit, int) gateway) () ''cap'' 2 (Some 0) =
     ((), Inl (Error ''connection lost''))
   \<and> CreateProduct_mutate mem_gateway shop ''cap'' 2 None = (shop, Inl stock_type_error)"
  by (simp add: CreateProduct_mutate_def down_gateway_def)

text \<open>
  C6, as amended. A price that is less than or equal to zero gives the failure result
  with the message \<open>Price must be positive.\<close>, whatever the stock; a price that passes
  with an integer stock below zero gives the failure result with
  \<open>Stock cannot be negative.\<close>; in both cases the store is untouched. A call that
  passes both checks hands the product to \<open>save()\<close>: when \<open>save()\<close> returns the key
  \<open>pk\<close> the result is the success result with the saved product, and when \<open>save()\<close>
  raises, the exception leaves \<open>mutate\<close> and no result is returned.
\<close>

theorem CreateProduct_checks_then_save:
  fixes price :: "'p::{zero,ord}"
  shows "(price \<le> 0 \<longrightarrow>
            CreateProduct_mutate gw st name price stock =
              (st, Inr \<lparr>cp_product = None, cp_success = False,
                        cp_message = ''Price must be positive.''\<rparr>))
       \<and> (\<not> price \<le> 0 \<and> n < 0 \<longrightarrow>
            CreateProduct_mutate gw st name price (Some n) =
              (st, Inr \<lparr>cp_product = None, cp_success = False,
                        cp_message = ''Stock cannot be negative.''\<rparr>))
       \<and> (\<not> price \<le> 0 \<and> \<not> n < 0
           \<and> product_save gw st \<lparr>Product_id = None, Product_name = name,
                                   Product_price = price, Product_stock = n\<rparr> = (st', Inr pk)
           \<longrightarrow> CreateProduct_mutate gw st name price (Some n) =
                 (st', Inr \<lparr>cp_product = Some \<lparr>Product_id = Some pk, Product_name = name,
                                                 Product_price = price, Product_stock = n\<rparr>,
                            cp_success = True,
                            cp_message = ''Product created successfully.''\<rparr>))
       \<and> (\<not> price \<le> 0 \<and> \<not> n < 0
           \<and> product_save gw st \<lparr>Product_id = None, Product_name = name,
                                   Product_price = price, Product_stock = n\<rparr> = (st'', Inl e)
           \<longrightarrow> CreateProduct_mutate gw st name price (Some n) = (st'', Inl e))"
  by (simp add: CreateProduct_mutate_def)

theorem CreateProduct_checks_then_save_witness:
  "CreateProduct_mutate mem_gateway shop ''cap'' 0 (Some 3) =
     (shop, Inr \<lparr>cp_product = None, cp_success = False,
                 cp_message = ''Price must be positive.''\<rparr>)
   \<and> CreateProduct_mutate mem_gateway shop ''cap'' (- 5) None =
     (shop, Inr \<lparr>cp_product = None, cp_success = False,
                 cp_message = ''Price must be positive.''\<rparr>)
   \<and> CreateProduct_mutate mem_gateway shop ''cap'' 2 (Some (- 1)) =
     (shop, Inr \<lparr>cp_product = None, cp_success = False,
                 cp_message = ''Stock cannot be negative.''\<rparr>)
   \<and> product_save mem_gateway shop
        \<lparr>Product_id = None, Product_name = ''cap'', Product_price = 2, Product_stock = 0\<rparr> =
     (shop\<lparr>product_table := [pen, ink, \<lparr>Product_id = Some 3, Product_name = ''cap'',
                                           Product_price = 2, Product_stock = 0\<rparr>]\<rparr>, Inr 3)
   \<and> CreateProduct_mutate mem_gateway shop ''cap'' 2 (Some 0) =
     (shop\<lparr>product_table := [pen, ink, \<lparr>Product_id = Some 3, Product_name = ''cap'',
                                           Product_price = 2, Product_stock = 0\<rparr>]\<rparr>,
      Inr \<lparr>cp_product = Some \<lparr>Product_id = Some 3, Product_name = ''cap'',
                               Product_price = 2, Product_stock = 0\<rparr>,
           cp_success = True, cp_message = ''Product created successfully.''\<rparr>)
   \<and> product_save (down_gateway :: (unit, int) gateway) ()
        \<lparr>Product_id = None, Product_name = ''cap'', Product_price = 2, Product_stock = 0\<rparr> =
     ((), Inl (Error ''connection lost''))
   \<and> CreateProduct_mutate (down_gateway :: (unit, int) gateway) () ''cap'' 2 (Some 0) =
     ((), Inl (Error ''connection lost''))"
proof -
  have saved: "product_save mem_gateway shop
        \<lparr>Product_id = None, Product_name = ''cap'', Product_price = 2, Product_stock = 0\<rparr> =
     (shop\<lparr>product_table := [pen, ink, \<lparr>Product_id = Some 3, Product_name = ''cap'',
                                           Product_price = 2, Product_stock = 0\<rparr>]\<rparr>, Inr 3)"
    by (simp add: store_defs)
  have lost: "product_save (down_gateway :: (unit, int) gateway) ()
        \<lparr>Product_id = None, Product_name = ''cap'', Product_price = 2, Product_stock = 0\<rparr> =
     ((), Inl (Error ''connection lost''))"
    by (simp add: down_gateway_def)
  have a: "CreateProduct_mutate mem_gateway shop ''cap'' 0 (Some 3) =
     (shop, Inr \<lparr>cp_product = None, cp_success = False,
                 cp_message = ''Price must be positive.''\<rparr>)"
    using CreateProduct_checks_then_save [where price = "0::int" and gw = mem_gateway
        and st = shop and name = "''cap''" and stock = "Some 3", THEN conjunct1]
    by simp
  have b: "CreateProduct_mutate mem_gateway shop ''cap'' (- 5) None =
     (shop, Inr \<lparr>cp_product = None, cp_success = False,
                 cp_message = ''Price must be positive.''\<rparr>)"
    using CreateProduct_checks_then_save [where price = "- 5::int" and gw = mem_gateway
        and st = shop and name = "''cap''" and stock = None, THEN conjunct1]
    by simp
  have c: "CreateProduct_mutate mem_gateway shop ''cap'' 2 (Some (- 1)) =
     (shop, Inr \<lparr>cp_product = None, cp_success = False,
                 cp_message = ''Stock cannot be negative.''\<rparr>)"
    using CreateProduct_checks_then_save [where price = "2::int" and gw = mem_gateway
        and st = shop and name = "''cap''" and n = "- 1", THEN conjunct2, THEN conjunct1]
    by simp
  have d: "CreateProduct_mutate mem_gateway shop ''cap'' 2 (Some 0) =
     (shop\<lparr>product_table := [pen, ink, \<lparr>Product_id = Some 3, Product_name = ''cap'',
                                           Product_price = 2, Product_stock = 0\<rparr>]\<rparr>,
      Inr \<lparr>cp_product = Some \<lparr>Product_id = Some 3, Product_name = ''cap'',
                               Product_price = 2, Product_stock = 0\<rparr>,
           cp_success = True, cp_message = ''Product created successfully.''\<rparr>)"
    using saved
      CreateProduct_checks_then_save [where price = "2::int" and gw = mem_gateway
        and st = shop and name = "''cap''" and n = 0 and pk = 3
        and st' = "shop\<lparr>product_table := [pen, ink, \<lparr>Product_id = Some 3,
          Product_name = ''cap'', Product_price = 2, Product_stock = 0\<rparr>]\<rparr>",
        THEN conjunct2, THEN conjunct2, THEN conjunct1]
    by simp
  have e: "CreateProduct_mutate (down_gateway :: (unit, int) gateway) () ''cap'' 2 (Some 0) =
     ((), Inl (Error ''connection lost''))"
    using lost
      CreateProduct_checks_then_save [where price = "2::int"
        and gw = "down_gateway :: (unit, int) gateway"
        and st = "()" and name = "''cap''" and n = 0 and st'' = "()"
        and e = "Error ''connection lost''",
        THEN conjunct2, THEN conjunct2, THEN conjunct2]
    by simp
  from a b c saved d lost e show ?thesis by blast
qed

section \<open>CreateOrder\<close>

lemma products_loop_append:
  assumes "\<forall>q \<in> set pre. \<exists>p. product_get gw st q = Inr p"
  shows "\<exists>ps t. products_loop gw st (pre @ rest) products total_amount =
           products_loop gw st rest (products @ ps) t"
  using assms
proof (induction pre arbitrary: products total_amount)
  case Nil
  show ?case by (rule exI [of _ "[]"], rule exI [of _ total_amount]) simp
next
  case (Cons q pre)
  from Cons.prems obtain p where p: "product_get gw st q = Inr p" by auto
  from Cons.prems have "\<forall>q \<in> set pre. \<exists>p. product_get gw st q = Inr p" by simp
  from Cons.IH [OF this, of "products @ [p]" "total_amount + Product_price p"]
  obtain ps t where
    "products_loop gw st (pre @ rest) (products @ [p]) (total_amount + Product_price p) =
       products_loop gw st rest ((products @ [p]) @ ps) t"
    by blast
  with p show ?case
    by (intro exI [of _ "p # ps"] exI [of _ t]) simp
qed

lemma products_loop_first_invalid:
  assumes "\<forall>q \<in> set pre. \<exists>p. product_get gw st q = Inr p"
    and "product_get gw st pid = Inl (ObjectDoesNotExist m)"
  shows "products_loop gw st (pre @ pid # post) products total_amount = Invalid_product pid"
proof -
  from products_loop_append [OF assms(1), of "pid # post" products total_amount]
  obtain ps t where "products_loop gw st (pre @ pid # post) products total_amount =
           products_loop gw st (pid # post) (products @ ps) t" by blast
  with assms(2) show ?thesis by simp
qed

lemma products_loop_Completed:
  fixes total_amount :: "'p::monoid_add"
  assumes "products_loop gw st pids products total_amount = Completed products' total_amount'"
  shows "\<exists>ps. products' = products @ ps
           \<and> list_all2 (\<lambda>pid p. product_get gw st pid = Inr p) pids ps
           \<and> total_amount' = total_amount + sum_list (map Product_price ps)"
  using assms
proof (induction pids arbitrary: products total_amount)
  case Nil
  then show ?case by simp
next
  case (Cons pid rest)
  from Cons.prems obtain p where p: "product_get gw st pid = Inr p"
    and loop: "products_loop gw st rest (products @ [p]) (total_amount + Product_price p)
                 = Completed products' total_amount'"
    by (auto split: sum.splits exn.splits)
  from Cons.IH [OF loop] obtain ps where ps: "products' = (products @ [p]) @ ps"
      "list_all2 (\<lambda>pid p. product_get gw st pid = Inr p) rest ps"
      "total_amount' = total_amount + Product_price p + sum_list (map Product_price ps)"
    by blast
  with p show ?case
    by (intro exI [of _ "p # ps"]) (simp add: add.assoc)
qed

text \<open>
  The paths of \<open>CreateOrder.mutate\<close> on which \<open>get()\<close> raises the not-found signal:
  the checks are made in a fixed order, the first failure ends the call, and the store is
  untouched.
\<close>

lemma CreateOrder_not_found_paths:
  "(customer_get gw st customer_id = Inl (ObjectDoesNotExist m) \<longrightarrow>
      CreateOrder_mutate gw now st customer_id product_ids order_date =
        (st, Inr \<lparr>co_order = None, co_success = False, co_message = ''Invalid customer ID.''\<rparr>))
   \<and> (customer_get gw st customer_id = Inr customer \<longrightarrow>
      CreateOrder_mutate gw now st customer_id [] order_date =
        (st, Inr \<lparr>co_order = None, co_success = False,
                  co_message = ''At least one product must be selected.''\<rparr>))
   \<and> (customer_get gw st customer_id = Inr customer
       \<and> (\<forall>q \<in> set pre. \<exists>p. product_get gw st q = Inr p)
       \<and> product_get gw st pid = Inl (ObjectDoesNotExist m') \<longrightarrow>
      CreateOrder_mutate gw now st customer_id (pre @ pid # post) order_date =
        (st, Inr \<lparr>co_order = None, co_success = False,
                  co_message = ''Invalid product ID: '' @ pid\<rparr>))"
  by (simp add: CreateOrder_mutate_def products_loop_first_invalid)

text \<open>
  C2. An id that resolves to nothing is to give the failure result: \<open>Invalid customer
  ID.\<close> for the customer, \<open>Invalid product ID: {id}\<close> for the first such product. The
  ids are strings, and only \<open>ObjectDoesNotExist\<close> is caught. In the shop, which holds
  customer 1 and products 1 and 2, the customer id \<open>7\<close> and the product id \<open>5\<close> give
  these results; but the customer id \<open>abc\<close> and the product id \<open>x\<close>, which resolve to
  nothing either, make \<open>get()\<close> raise \<open>ValueError\<close>, and the exception leaves
  \<open>mutate\<close> instead of the result.
\<close>

theorem CreateOrder_malformed_id_raises:
  "CreateOrder_mutate mem_gateway 100 shop ''7'' [''1'', ''2''] None =
     (shop, Inr \<lparr>co_order = None, co_success = False, co_message = ''Invalid customer ID.''\<rparr>)
   \<and> CreateOrder_mutate mem_gateway 100 shop ''1'' [''1'', ''5'', ''2''] None =
     (shop, Inr \<lparr>co_order = None, co_success = False,
                 co_message = ''Invalid product ID: 5''\<rparr>)
   \<and> customer_get mem_gateway shop ''abc'' = Inl (not_a_number ''abc'')
   \<and> CreateOrder_mutate mem_gateway 100 shop ''abc'' [''1'', ''2''] None =
     (shop, Inl (not_a_number ''abc''))
   \<and> product_get mem_gateway shop ''x'' = Inl (not_a_number ''x'')
   \<and> CreateOrder_mutate mem_gateway 100 shop ''1'' [''1'', ''x'', ''2''] None =
     (shop, Inl (not_a_number ''x''))"
  by (simp add: CreateOrder_mutate_def eval_simps not_a_number_def)

text \<open>
  C3. When \<open>CreateOrder.mutate\<close> returns a success, every id of \<open>product_ids\<close> was
  resolved in the store as it was at the call, the order that was handed to \<open>save()\<close>
  and is returned has as its \<open>total_amount\<close> the sum of the prices of these products,
  and the products were then attached to the saved order.
\<close>

theorem CreateOrder_total_amount:
  fixes gw :: "('st, 'p::monoid_add) gateway"
  assumes "CreateOrder_mutate gw now st customer_id product_ids order_date = (st', Inr r)"
    and "co_success r"
  shows "\<exists>ord products st1 pk.
           co_order r = Some (ord\<lparr>Order_id := Some pk\<rparr>)
         \<and> list_all2 (\<lambda>pid p. product_get gw st pid = Inr p) product_ids products
         \<and> Order_total_amount ord = sum_list (map Product_price products)
         \<and> order_save gw st ord = (st1, Inr pk)
         \<and> order_products_set gw st1 (ord\<lparr>Order_id := Some pk\<rparr>) products = (st', Inr ())"
proof -
  from assms obtain customer where c: "customer_get gw st customer_id = Inr customer"
    by (auto simp: CreateOrder_mutate_def split: sum.splits exn.splits)
  from assms c have ne: "product_ids \<noteq> []"
    by (auto simp: CreateOrder_mutate_def)
  from assms c ne obtain products total_amount where
    loop: "products_loop gw st product_ids [] 0 = Completed products total_amount"
    by (auto simp: CreateOrder_mutate_def split: loop_exit.splits)
  from products_loop_Completed [OF loop]
  have ps: "list_all2 (\<lambda>pid p. product_get gw st pid = Inr p) product_ids products"
    and total_amount: "total_amount = sum_list (map Product_price products)"
    by simp_all
  define ord where "ord = \<lparr>Order_id = None, Order_customer = customer,
      Order_order_date = (case order_date of None \<Rightarrow> now | Some d \<Rightarrow> d),
      Order_total_amount = total_amount\<rparr>"
  from assms c ne loop obtain st1 pk where
    save: "order_save gw st ord = (st1, Inr pk)"
    and rel: "order_products_set gw st1 (ord\<lparr>Order_id := Some pk\<rparr>) products = (st', Inr ())"
    and r: "co_order r = Some (ord\<lparr>Order_id := Some pk\<rparr>)"
    by (auto simp: CreateOrder_mutate_def ord_def Let_def split: prod.splits sum.splits)
  from r ps total_amount save rel show ?thesis
    by (intro exI [of _ ord] exI [of _ products] exI [of _ st1] exI [of _ pk]) (simp add: ord_def)
qed

theorem CreateOrder_total_amount_witness:
  "CreateOrder_mutate mem_gateway 100 shop ''1'' [''1'', ''2'', ''1''] None =
     (shop\<lparr>order_table := [(ann_order, [pen, ink, pen])]\<rparr>,
      Inr \<lparr>co_order = Some ann_order, co_success = True,
           co_message = ''Order created successfully.''\<rparr>)
   \<and> Order_total_amount ann_order = sum_list (map Product_price [pen, ink, pen])
   \<and> (\<exists>ord products st1 pk.
         Some ann_order = Some (ord\<lparr>Order_id := Some pk\<rparr>)
       \<and> list_all2 (\<lambda>pid p. product_get mem_gateway shop pid = Inr p) [''1'', ''2'', ''1'']
            products
       \<and> Order_total_amount ord = sum_list (map Product_price products)
       \<and> order_save mem_gateway shop ord = (st1, Inr pk)
       \<and> order_products_set mem_gateway st1 (ord\<lparr>Order_id := Some pk\<rparr>) products =
            (shop\<lparr>order_table := [(ann_order, [pen, ink, pen])]\<rparr>, Inr ()))"
proof -
  have run: "CreateOrder_mutate mem_gateway 100 shop ''1'' [''1'', ''2'', ''1''] None =
     (shop\<lparr>order_table := [(ann_order, [pen, ink, pen])]\<rparr>,
      Inr \<lparr>co_order = Some ann_order, co_success = True,
           co_message = ''Order created successfully.''\<rparr>)"
    by (simp add: CreateOrder_mutate_def eval_simps ann_order_def)
  have total: "Order_total_amount ann_order = sum_list (map Product_price [pen, ink, pen])"
    by (simp add: ann_order_def pen_def ink_def)
  from CreateOrder_total_amount [OF run] run total show ?thesis by simp
qed

section \<open>BulkCreateCustomers\<close>

lemma bulk_row_acc:
  "bulk_row gw idx data (st, created, errors) =
     (case bulk_row gw idx data (st, [], []) of (st', c, e) \<Rightarrow> (st', created @ c, errors @ e))"
  by (simp add: bulk_row_def Let_def split: sum.splits bool.splits prod.splits)

lemma bulk_row_one:
  assumes "bulk_row gw idx data (st, [], []) = (st', c, e)"
  shows "(\<exists>pk. c = [\<lparr>Customer_id = Some pk, Customer_name = input_name data,
                       Customer_email = input_email data, Customer_phone = input_phone data\<rparr>]
               \<and> e = [])
         \<or> (\<exists>m. c = [] \<and> e = [row_prefix idx @ m])"
  using assms
  by (auto simp: bulk_row_def Let_def split: sum.splits bool.splits prod.splits if_splits)

lemma bulk_loop_append:
  "bulk_loop gw idx (xs @ ys) acc = bulk_loop gw (idx + length xs) ys (bulk_loop gw idx xs acc)"
  by (induction xs arbitrary: idx acc) simp_all

lemma bulk_loop_outcomes:
  "bulk_loop gw idx rows (st, created, errors) =
     (fst (bulk_loop gw idx rows (st, created, errors)),
      created @ concat (map fst (row_outcomes gw idx rows st)),
      errors @ concat (map snd (row_outcomes gw idx rows st)))"
proof (induction rows arbitrary: idx st created errors)
  case Nil
  then show ?case by simp
next
  case (Cons data rest)
  obtain st' c e where r: "bulk_row gw idx data (st, [], []) = (st', c, e)"
    by (cases "bulk_row gw idx data (st, [], [])") auto
  then have r': "bulk_row gw idx data (st, created, errors) = (st', created @ c, errors @ e)"
    by (subst bulk_row_acc) simp
  show ?case
    using Cons.IH [of "Suc idx" st' "created @ c" "errors @ e"] r r' by simp
qed

lemma length_row_outcomes: "length (row_outcomes gw idx rows st) = length rows"
  by (induction rows arbitrary: idx st) (simp_all split: prod.splits)

lemma row_outcomes_nth:
  assumes "i < length rows"
  shows "(\<exists>pk. row_outcomes gw idx rows st ! i =
            ([\<lparr>Customer_id = Some pk, Customer_name = input_name (rows ! i),
               Customer_email = input_email (rows ! i),
               Customer_phone = input_phone (rows ! i)\<rparr>], []))
         \<or> (\<exists>m. row_outcomes gw idx rows st ! i = ([], [row_prefix (idx + i) @ m]))"
  using assms
proof (induction rows arbitrary: idx st i)
  case Nil
  then show ?case by simp
next
  case (Cons data rest)
  obtain st' c e where r: "bulk_row gw idx data (st, [], []) = (st', c, e)"
    by (cases "bulk_row gw idx data (st, [], [])") auto
  show ?case
  proof (cases i)
    case 0
    with r bulk_row_one [OF r] show ?thesis by auto
  next
    case (Suc j)
    with Cons.prems have "j < length rest" by simp
    from Cons.IH [OF this, of "Suc idx" st'] r Suc show ?thesis by simp
  qed
qed

lemma row_outcomes_sizes:
  "length (concat (map fst (row_outcomes gw idx rows st)))
     + length (concat (map snd (row_outcomes gw idx rows st))) = length rows"
proof (induction rows arbitrary: idx st)
  case Nil
  then show ?case by simp
next
  case (Cons data rest)
  obtain st' c e where r: "bulk_row gw idx data (st, [], []) = (st', c, e)"
    by (cases "bulk_row gw idx data (st, [], [])") auto
  from bulk_row_one [OF r] have "length c + length e = 1" by auto
  with Cons.IH [of "Suc idx" st'] r show ?case by simp
qed

text \<open>
  One iteration, case by case, for every store: what it appends and the store it leaves.
\<close>

lemma bulk_row_cases:
  "(customer_email_exists gw st (input_email data) = Inl e \<longrightarrow>
      bulk_row gw idx data (st, created, errors) =
        (st, created, errors @ [''Row '' @ str_nat (idx + 1) @ '': '' @ str_exn e]))
   \<and> (customer_email_exists gw st (input_email data) = Inr True \<longrightarrow>
      bulk_row gw idx data (st, created, errors) =
        (st, created,
         errors @ [''Row '' @ str_nat (idx + 1) @ '': Email '' @ [CHR 0x27] @ input_email data
                     @ [CHR 0x27] @ '' already exists.'']))
   \<and> (customer_email_exists gw st (input_email data) = Inr False
       \<and> phone_rejected (input_phone data) \<longrightarrow>
      bulk_row gw idx data (st, created, errors) =
        (st, created, errors @ [''Row '' @ str_nat (idx + 1) @ '': Invalid phone format.'']))
   \<and> (customer_email_exists gw st (input_email data) = Inr False
       \<and> \<not> phone_rejected (input_phone data)
       \<and> customer_save gw st \<lparr>Customer_id = None, Customer_name = input_name data,
             Customer_email = input_email data, Customer_phone = input_phone data\<rparr>
           = (st', Inl e') \<longrightarrow>
      bulk_row gw idx data (st, created, errors) =
        (st', created, errors @ [''Row '' @ str_nat (idx + 1) @ '': '' @ str_exn e']))
   \<and> (customer_email_exists gw st (input_email data) = Inr False
       \<and> \<not> phone_rejected (input_phone data)
       \<and> customer_save gw st \<lparr>Customer_id = None, Customer_name = input_name data,
             Customer_email = input_email data, Customer_phone = input_phone data\<rparr>
           = (st', Inr pk) \<longrightarrow>
      bulk_row gw idx data (st, created, errors) =
        (st', created @ [\<lparr>Customer_id = Some pk, Customer_name = input_name data,
             Customer_email = input_email data, Customer_phone = input_phone data\<rparr>], errors))"
  by (simp add: bulk_row_def row_prefix_def)

lemma bulk_loop_split:
  "bulk_loop gw 0 (pre @ data # post) acc =
     bulk_loop gw (Suc (length pre)) post (bulk_row gw (length pre) data (bulk_loop gw 0 pre acc))"
  by (simp add: bulk_loop_append)

lemma mutate_runs_loop:
  assumes "atomic_enter gw st = (st0, Inr ())"
    and "bulk_loop gw 0 customers (st0, [], []) = (st1, created1, errors1)"
    and "atomic_exit gw st1 = (st2, Inr ())"
  shows "BulkCreateCustomers_mutate gw st customers =
     (st2, Inr \<lparr>bc_created_customers = created1, bc_errors = errors1\<rparr>)"
  using assms by (simp add: BulkCreateCustomers_mutate_def)

lemma mem_three_rows:
  assumes "\<not> phone_rejected (input_phone r1)" and "\<not> phone_rejected (input_phone r3)"
    and "input_email r1 \<notin> set (map Customer_email (customer_table db))"
    and "input_email r3 \<notin> set (map Customer_email (customer_table db))"
    and "input_email r3 \<noteq> input_email r1"
    and "input_email r2 \<in> set (map Customer_email (customer_table db))
         \<or> input_email r2 = input_email r1"
  shows "BulkCreateCustomers_mutate mem_gateway db [r1, r2, r3] =
     (db\<lparr>customer_table := customer_table db @
          [\<lparr>Customer_id = Some (length (customer_table db) + 1), Customer_name = input_name r1,
             Customer_email = input_email r1, Customer_phone = input_phone r1\<rparr>,
            \<lparr>Customer_id = Some (length (customer_table db) + 2), Customer_name = input_name r3,
             Customer_email = input_email r3, Customer_phone = input_phone r3\<rparr>]\<rparr>,
      Inr \<lparr>bc_created_customers =
          [\<lparr>Customer_id = Some (length (customer_table db) + 1), Customer_name = input_name r1,
             Customer_email = input_email r1, Customer_phone = input_phone r1\<rparr>,
            \<lparr>Customer_id = Some (length (customer_table db) + 2), Customer_name = input_name r3,
             Customer_email = input_email r3, Customer_phone = input_phone r3\<rparr>],
           bc_errors = [''Row 2: Email '' @ [CHR 0x27] @ input_email r2 @ [CHR 0x27]
                          @ '' already exists.'']\<rparr>)"
  using assms
  by (auto simp: BulkCreateCustomers_mutate_def bulk_row_def row_prefix_def str_nat_2
      mem_gateway_def mem_customer_email_exists_def mem_customer_save_def Let_def)

text \<open>
  C9. Every row of a batch adds exactly one element to exactly one of the two lists. When
  the transaction block is entered and left without an exception, \<open>mutate\<close> returns a
  result; and for every result it returns there is a list \<open>outs\<close> with one entry per
  row, the entry of row \<open>i\<close> being either one customer built from the fields of that
  row and no error, or no customer and one error string that starts with \<open>Row i+1:\<close>,
  such that \<open>created_customers\<close> and \<open>errors\<close> are the concatenations of the
  entries in input order. So the two lengths add up to the length of the batch.
\<close>

theorem bulk_one_outcome_per_row:
  "(\<forall>st0 st2. atomic_enter gw st = (st0, Inr ())
       \<and> atomic_exit gw (fst (bulk_loop gw 0 customers (st0, [], []))) = (st2, Inr ())
       \<longrightarrow> (\<exists>r. BulkCreateCustomers_mutate gw st customers = (st2, Inr r)))
   \<and> (\<forall>st' r. BulkCreateCustomers_mutate gw st customers = (st', Inr r) \<longrightarrow>
        (\<exists>outs. length outs = length customers
           \<and> bc_created_customers r = concat (map fst outs)
           \<and> bc_errors r = concat (map snd outs)
           \<and> (\<forall>i < length customers.
                (\<exists>pk. outs ! i =
                   ([\<lparr>Customer_id = Some pk, Customer_name = input_name (customers ! i),
                      Customer_email = input_email (customers ! i),
                      Customer_phone = input_phone (customers ! i)\<rparr>], []))
                \<or> (\<exists>m. outs ! i = ([], [''Row '' @ str_nat (i + 1) @ '': '' @ m]))))
        \<and> length (bc_created_customers r) + length (bc_errors r) = length customers)"
proof (intro conjI allI impI)
  fix st0 st2
  assume "atomic_enter gw st = (st0, Inr ())
       \<and> atomic_exit gw (fst (bulk_loop gw 0 customers (st0, [], []))) = (st2, Inr ())"
  then show "\<exists>r. BulkCreateCustomers_mutate gw st customers = (st2, Inr r)"
    by (cases "bulk_loop gw 0 customers (st0, [], [])")
      (auto simp: BulkCreateCustomers_mutate_def)
next
  fix st' r
  assume m: "BulkCreateCustomers_mutate gw st customers = (st', Inr r)"
  then obtain st0 where st0: "atomic_enter gw st = (st0, Inr ())"
    by (auto simp: BulkCreateCustomers_mutate_def split: prod.splits sum.splits)
  define outs where "outs = row_outcomes gw 0 customers st0"
  from m st0 have r: "bc_created_customers r = concat (map fst outs)"
      "bc_errors r = concat (map snd outs)"
    using bulk_loop_outcomes [of gw 0 customers st0 "[]" "[]"]
    by (auto simp: BulkCreateCustomers_mutate_def outs_def split: prod.splits sum.splits)
  have nth: "\<forall>i < length customers.
                (\<exists>pk. outs ! i =
                   ([\<lparr>Customer_id = Some pk, Customer_name = input_name (customers ! i),
                      Customer_email = input_email (customers ! i),
                      Customer_phone = input_phone (customers ! i)\<rparr>], []))
                \<or> (\<exists>m. outs ! i = ([], [''Row '' @ str_nat (i + 1) @ '': '' @ m]))"
    using row_outcomes_nth [of _ customers gw 0 st0]
    by (simp add: outs_def row_prefix_def)
  show "\<exists>outs. length outs = length customers
           \<and> bc_created_customers r = concat (map fst outs)
           \<and> bc_errors r = concat (map snd outs)
           \<and> (\<forall>i < length customers.
                (\<exists>pk. outs ! i =
                   ([\<lparr>Customer_id = Some pk, Customer_name = input_name (customers ! i),
                      Customer_email = input_email (customers ! i),
                      Customer_phone = input_phone (customers ! i)\<rparr>], []))
                \<or> (\<exists>m. outs ! i = ([], [''Row '' @ str_nat (i + 1) @ '': '' @ m])))"
    using r nth by (intro exI [of _ outs]) (simp add: outs_def length_row_outcomes)
  show "length (bc_created_customers r) + length (bc_errors r) = length customers"
    using r row_outcomes_sizes [of gw 0 customers st0] by (simp add: outs_def)
qed

lemma four_rows_run:
  "BulkCreateCustomers_mutate mem_gateway shop [bob_row, ann_row, cy_row, eve_row] =
     (shop\<lparr>customer_table := [ann, bob, eve]\<rparr>,
      Inr \<lparr>bc_created_customers = [bob, eve],
           bc_errors = [''Row 2: Email '' @ [CHR 0x27] @ ''ann@example.com'' @ [CHR 0x27]
                          @ '' already exists.'',
                        ''Row 3: Invalid phone format.'']\<rparr>)"
  by (simp add: BulkCreateCustomers_mutate_def bulk_row_def eval_simps bob_def eve_def)

theorem bulk_one_outcome_per_row_witness:
  "atomic_enter mem_gateway shop = (shop, Inr ())
   \<and> atomic_exit mem_gateway (fst (bulk_loop mem_gateway 0 [bob_row, ann_row, cy_row, eve_row]
        (shop, [], []))) = (shop\<lparr>customer_table := [ann, bob, eve]\<rparr>, Inr ())
   \<and> BulkCreateCustomers_mutate mem_gateway shop [bob_row, ann_row, cy_row, eve_row] =
     (shop\<lparr>customer_table := [ann, bob, eve]\<rparr>,
      Inr \<lparr>bc_created_customers = [bob, eve],
           bc_errors = [''Row 2: Email '' @ [CHR 0x27] @ ''ann@example.com'' @ [CHR 0x27]
                          @ '' already exists.'',
                        ''Row 3: Invalid phone format.'']\<rparr>)
   \<and> (\<exists>r. BulkCreateCustomers_mutate mem_gateway shop [bob_row, ann_row, cy_row, eve_row] =
         (shop\<lparr>customer_table := [ann, bob, eve]\<rparr>, Inr r))
   \<and> (\<exists>outs. length outs = length [bob_row, ann_row, cy_row, eve_row]
         \<and> [bob, eve] = concat (map fst outs)
         \<and> [''Row 2: Email '' @ [CHR 0x27] @ ''ann@example.com'' @ [CHR 0x27]
                          @ '' already exists.'',
            ''Row 3: Invalid phone format.''] = concat (map snd outs))
   \<and> length [bob, eve] + length [''Row 2: Email '' @ [CHR 0x27] @ ''ann@example.com''
           @ [CHR 0x27] @ '' already exists.'', ''Row 3: Invalid phone format.'']
       = length [bob_row, ann_row, cy_row, eve_row]"
proof -
  have enter: "atomic_enter mem_gateway shop = (shop, Inr ())"
    by (simp add: mem_gateway_def)
  have leave: "atomic_exit mem_gateway (fst (bulk_loop mem_gateway 0
        [bob_row, ann_row, cy_row, eve_row] (shop, [], []))) =
      (shop\<lparr>customer_table := [ann, bob, eve]\<rparr>, Inr ())"
    by (simp add: bulk_row_def eval_simps bob_def eve_def)
  note inst = bulk_one_outcome_per_row [where gw = mem_gateway and st = shop
      and customers = "[bob_row, ann_row, cy_row, eve_row]"]
  from inst enter leave
  have returns: "\<exists>r. BulkCreateCustomers_mutate mem_gateway shop
      [bob_row, ann_row, cy_row, eve_row] = (shop\<lparr>customer_table := [ann, bob, eve]\<rparr>, Inr r)"
    by blast
  from inst four_rows_run
  have outs: "(\<exists>outs. length outs = length [bob_row, ann_row, cy_row, eve_row]
         \<and> [bob, eve] = concat (map fst outs)
         \<and> [''Row 2: Email '' @ [CHR 0x27] @ ''ann@example.com'' @ [CHR 0x27]
                          @ '' already exists.'',
            ''Row 3: Invalid phone format.''] = concat (map snd outs))
     \<and> length [bob, eve] + length [''Row 2: Email '' @ [CHR 0x27] @ ''ann@example.com''
           @ [CHR 0x27] @ '' already exists.'', ''Row 3: Invalid phone format.'']
       = length [bob_row, ann_row, cy_row, eve_row]"
    by fastforce
  from enter leave four_rows_run returns outs show ?thesis by blast
qed

text \<open>
  C1. A row whose \<open>save()\<close> raises is to add its one error string and leave the other
  rows alone, and every row that passes validation is to be persisted and listed in
  \<open>created_customers\<close>. The handler of the loop is inside the \<open>atomic\<close> block. On the
  store whose name column holds 20 characters, with Ann in it, the batch of Bob, a too
  long name and Eve returns Bob as created and two errors: the second row's own, and one
  for Eve, whose valid row now fails at its first query. Leaving the block rolls it
  back, so the store holds neither Bob nor Eve. Without the second row both are created
  and stored.
\<close>

theorem bulk_save_exception_rolls_back_batch:
  "BulkCreateCustomers_mutate (capped_gateway 20) (idle shop) [bob_row, max_row, eve_row] =
     (idle shop,
      Inr \<lparr>bc_created_customers = [bob],
           bc_errors = [''Row 2: value too long'', ''Row 3: '' @ str_exn transaction_error]\<rparr>)
   \<and> BulkCreateCustomers_mutate (capped_gateway 20) (idle shop) [bob_row, eve_row] =
     (idle (shop\<lparr>customer_table := [ann, bob, eve]\<rparr>),
      Inr \<lparr>bc_created_customers = [bob, eve], bc_errors = []\<rparr>)"
  by (simp add: BulkCreateCustomers_mutate_def bulk_row_def eval_simps bob_def eve_def)

end
